theory Spec2Isabelle
  imports Complex_Main
begin

section \<open>JavaScript numbers\<close>

text \<open>
  Every quantity of \<^verbatim>\<open>RelativityVisualizer.js\<close> is a JavaScript number. A number is
  modelled as a real or one of the three special values of IEEE 754 arithmetic, so that
  every place where the source can leave the reals (a square root of a negative value, a
  division by zero, \<open>Infinity - Infinity\<close>) is a branch of the model. Finite results
  are exact reals: rounding, overflow and underflow of the 64-bit format, and the sign of
  zero, are not modelled by these operations (a zero divisor counts as \<open>+0\<close>). The
  rounded operations, for the redshift, are in the section on double-precision rounding.
\<close>

datatype number = Num real | NaN | PInf | NInf

fun isFinite :: "number \<Rightarrow> bool" where
  "isFinite (Num a) = True"
| "isFinite NaN = False"
| "isFinite PInf = False"
| "isFinite NInf = False"

fun js_neg :: "number \<Rightarrow> number" where
  "js_neg (Num a) = Num (- a)"
| "js_neg NaN = NaN"
| "js_neg PInf = NInf"
| "js_neg NInf = PInf"

fun js_add :: "number \<Rightarrow> number \<Rightarrow> number" where
  "js_add (Num a) (Num b) = Num (a + b)"
| "js_add NaN b = NaN"
| "js_add a NaN = NaN"
| "js_add PInf NInf = NaN"
| "js_add NInf PInf = NaN"
| "js_add PInf b = PInf"
| "js_add a PInf = PInf"
| "js_add NInf b = NInf"
| "js_add a NInf = NInf"

definition js_sub :: "number \<Rightarrow> number \<Rightarrow> number" where
  "js_sub a b = js_add a (js_neg b)"

text \<open>The sign of an infinite product or quotient, from the sign of the finite operand.\<close>

definition signedInf :: "real \<Rightarrow> number" where
  "signedInf s = (if 0 < s then PInf else if s < 0 then NInf else NaN)"

fun js_mul :: "number \<Rightarrow> number \<Rightarrow> number" where
  "js_mul (Num a) (Num b) = Num (a * b)"
| "js_mul NaN b = NaN"
| "js_mul a NaN = NaN"
| "js_mul (Num a) PInf = signedInf a"
| "js_mul (Num a) NInf = signedInf (- a)"
| "js_mul PInf (Num b) = signedInf b"
| "js_mul NInf (Num b) = signedInf (- b)"
| "js_mul PInf PInf = PInf"
| "js_mul NInf NInf = PInf"
| "js_mul PInf NInf = NInf"
| "js_mul NInf PInf = NInf"

fun js_div :: "number \<Rightarrow> number \<Rightarrow> number" where
  "js_div (Num a) (Num b) = (if b = 0 then signedInf a else Num (a / b))"
| "js_div NaN b = NaN"
| "js_div a NaN = NaN"
| "js_div (Num a) PInf = Num 0"
| "js_div (Num a) NInf = Num 0"
| "js_div PInf (Num b) = (if b < 0 then NInf else PInf)"
| "js_div NInf (Num b) = (if b < 0 then PInf else NInf)"
| "js_div PInf PInf = NaN"
| "js_div PInf NInf = NaN"
| "js_div NInf PInf = NaN"
| "js_div NInf NInf = NaN"

text \<open>\<^verbatim>\<open>a < b\<close> and \<^verbatim>\<open>a > b\<close>: false as soon as an operand is \<open>NaN\<close>.\<close>

fun js_lt :: "number \<Rightarrow> number \<Rightarrow> bool" where
  "js_lt (Num a) (Num b) = (a < b)"
| "js_lt NaN b = False"
| "js_lt a NaN = False"
| "js_lt a NInf = False"
| "js_lt PInf b = False"
| "js_lt NInf b = True"
| "js_lt a PInf = True"

definition js_gt :: "number \<Rightarrow> number \<Rightarrow> bool" where
  "js_gt a b = js_lt b a"

fun js_sqrt :: "number \<Rightarrow> number" where
  "js_sqrt (Num a) = (if a < 0 then NaN else Num (sqrt a))"
| "js_sqrt NaN = NaN"
| "js_sqrt PInf = PInf"
| "js_sqrt NInf = NaN"

fun js_cos :: "number \<Rightarrow> number" where
  "js_cos (Num a) = Num (cos a)"
| "js_cos NaN = NaN"
| "js_cos PInf = NaN"
| "js_cos NInf = NaN"

fun js_sin :: "number \<Rightarrow> number" where
  "js_sin (Num a) = Num (sin a)"
| "js_sin NaN = NaN"
| "js_sin PInf = NaN"
| "js_sin NInf = NaN"

fun js_exp :: "number \<Rightarrow> number" where
  "js_exp (Num a) = Num (exp a)"
| "js_exp NaN = NaN"
| "js_exp PInf = PInf"
| "js_exp NInf = Num 0"

fun js_abs :: "number \<Rightarrow> number" where
  "js_abs (Num a) = Num \<bar>a\<bar>"
| "js_abs NaN = NaN"
| "js_abs PInf = PInf"
| "js_abs NInf = PInf"

text \<open>\<^verbatim>\<open>Math.max(a, b)\<close>: \<open>NaN\<close> as soon as an argument is \<open>NaN\<close>.\<close>

fun js_max :: "number \<Rightarrow> number \<Rightarrow> number" where
  "js_max NaN b = NaN"
| "js_max a NaN = NaN"
| "js_max a b = (if js_lt a b then b else a)"

text \<open>
  \<^verbatim>\<open>Math.pow(base, exponent)\<close>, case by case as ECMAScript lists them. A negative base
  with an integral exponent takes the sign from the exponent's parity.
\<close>

fun js_pow :: "number \<Rightarrow> number \<Rightarrow> number" where
  "js_pow b NaN = NaN"
| "js_pow b (Num e) =
    (if e = 0 then Num 1
     else case b of
         NaN \<Rightarrow> NaN
       | PInf \<Rightarrow> (if 0 < e then PInf else Num 0)
       | NInf \<Rightarrow> (if 0 < e then (if real_of_int \<lfloor>e\<rfloor> = e \<and> odd \<lfloor>e\<rfloor> then NInf else PInf)
                  else Num 0)
       | Num a \<Rightarrow>
           (if a = 0 then (if 0 < e then Num 0 else PInf)
            else if 0 < a then Num (a powr e)
            else if real_of_int \<lfloor>e\<rfloor> = e
              then (if even \<lfloor>e\<rfloor> then Num (\<bar>a\<bar> powr e) else Num (- (\<bar>a\<bar> powr e)))
            else NaN))"
| "js_pow b PInf =
    (case b of
       NaN \<Rightarrow> NaN
     | PInf \<Rightarrow> PInf
     | NInf \<Rightarrow> PInf
     | Num a \<Rightarrow> (if 1 < \<bar>a\<bar> then PInf else if \<bar>a\<bar> = 1 then NaN else Num 0))"
| "js_pow b NInf =
    (case b of
       NaN \<Rightarrow> NaN
     | PInf \<Rightarrow> Num 0
     | NInf \<Rightarrow> Num 0
     | Num a \<Rightarrow> (if 1 < \<bar>a\<bar> then Num 0 else if \<bar>a\<bar> = 1 then NaN else PInf))"

text \<open>The constants of the component: \<^verbatim>\<open>SCALE_FACTOR = 0.1\<close> and \<^verbatim>\<open>Math.PI\<close>.\<close>

definition SCALE_FACTOR :: number where
  "SCALE_FACTOR = Num (1 / 10)"

definition js_PI :: number where
  "js_PI = Num pi"

section \<open>The particle integrator\<close>

text \<open>
  \<^verbatim>\<open>Math.random()\<close> is the one effect of the integrator. The generator is an explicit
  state, an infinite supply of draws: \<open>random\<close> returns the next draw and the rest.
\<close>

type_synonym rng = "nat \<Rightarrow> real"

definition random :: "rng \<Rightarrow> number \<times> rng" where
  "random g = (Num (g 0), (\<lambda>n. g (Suc n)))"

text \<open>
  A trail entry \<^verbatim>\<open>{ x, y }\<close> and a particle
  \<^verbatim>\<open>{ x, y, vx, vy, trail, color, size }\<close>. The colour is a string made by
  \<^verbatim>\<open>d3.interpolateRainbow\<close>; its type is left open.
\<close>

record trailPoint =
  tx :: number
  ty :: number

record 'c particle =
  px :: number
  py :: number
  pvx :: number
  pvy :: number
  trail :: "trailPoint list"
  color :: 'c
  psize :: number

text \<open>
  \<^verbatim>\<open>initParticles\<close>: the loop \<^verbatim>\<open>for (i = 0; i < particleCount; i++)\<close> as a recursion on the
  number of particles still to make. \<open>particleCount\<close> and \<open>particleSpeed\<close> are the
  component's state; \<open>interpolateRainbow\<close> is the colour scale of d3.
\<close>

fun initLoop :: "(number \<Rightarrow> 'c) \<Rightarrow> nat \<Rightarrow> number \<Rightarrow> nat \<Rightarrow> nat \<Rightarrow> rng \<Rightarrow> 'c particle list \<times> rng" where
  "initLoop interpolateRainbow particleCount particleSpeed i 0 g = ([], g)"
| "initLoop interpolateRainbow particleCount particleSpeed i (Suc n) g =
    (let (u1, g1) = random g;
         angle = js_mul (js_mul u1 (Num 2)) js_PI;
         (u2, g2) = random g1;
         distance = js_add (Num 10) (js_mul u2 (Num 40));
         x = js_mul distance (js_cos angle);
         y = js_mul distance (js_sin angle);
         (u3, g3) = random g2;
         speed = js_mul particleSpeed (js_add (Num (8 / 10)) (js_mul (Num (4 / 10)) u3));
         vx = js_div (js_mul (js_neg y) speed) (js_sqrt (js_add (js_mul x x) (js_mul y y)));
         vy = js_div (js_mul x speed) (js_sqrt (js_add (js_mul x x) (js_mul y y)));
         c = interpolateRainbow (js_div (Num (real i)) (Num (real particleCount)));
         (u4, g4) = random g3;
         p = \<lparr>px = x, py = y, pvx = vx, pvy = vy, trail = [], color = c,
              psize = js_add (Num 1) (js_mul u4 (Num 2))\<rparr>;
         (ps, g') = initLoop interpolateRainbow particleCount particleSpeed (Suc i) n g4
     in (p # ps, g'))"

definition initParticles :: "(number \<Rightarrow> 'c) \<Rightarrow> nat \<Rightarrow> number \<Rightarrow> rng \<Rightarrow> 'c particle list \<times> rng" where
  "initParticles interpolateRainbow particleCount particleSpeed g =
     initLoop interpolateRainbow particleCount particleSpeed 0 particleCount g"

text \<open>
  The callback of \<^verbatim>\<open>particles.map\<close> in \<^verbatim>\<open>updateParticles\<close>: one particle, one step.
  Inside the event horizon the particle is sampled again (three draws); otherwise one
  explicit Euler step, and the old position pushed on the trail.
\<close>

definition updateParticle :: "number \<Rightarrow> number \<Rightarrow> number \<Rightarrow> number \<Rightarrow> 'c particle \<Rightarrow> rng \<Rightarrow> 'c particle \<times> rng" where
  "updateParticle particleSpeed dt centralMass rotation particle g =
    (let x = px particle; y = py particle; vx = pvx particle; vy = pvy particle;
         r = js_sqrt (js_add (js_mul x x) (js_mul y y));
         eventHorizon = js_mul (js_mul (Num 2) centralMass) SCALE_FACTOR
     in if js_lt r eventHorizon then
          (let (u1, g1) = random g;
               angle = js_mul (js_mul u1 (Num 2)) js_PI;
               (u2, g2) = random g1;
               distance = js_add (Num 10) (js_mul u2 (Num 40));
               newX = js_mul distance (js_cos angle);
               newY = js_mul distance (js_sin angle);
               (u3, g3) = random g2;
               speed = js_mul particleSpeed (js_add (Num (8 / 10)) (js_mul (Num (4 / 10)) u3));
               newVx = js_div (js_mul (js_neg newY) speed)
                         (js_sqrt (js_add (js_mul newX newX) (js_mul newY newY)));
               newVy = js_div (js_mul newX speed)
                         (js_sqrt (js_add (js_mul newX newX) (js_mul newY newY)))
           in (\<lparr>px = newX, py = newY, pvx = newVx, pvy = newVy, trail = [],
                color = color particle, psize = psize particle\<rparr>, g3))
        else
          (let forceMagnitude = js_div centralMass (js_mul r r);
               forceX = js_div (js_mul (js_neg x) forceMagnitude) r;
               forceY = js_div (js_mul (js_neg y) forceMagnitude) r;
               rotationEffect =
                 js_mul (js_div (js_mul rotation centralMass) (js_mul (js_mul r r) r)) (Num (2 / 10));
               frameX = (if js_gt rotation (Num 0) then js_mul (js_neg y) rotationEffect else Num 0);
               frameY = (if js_gt rotation (Num 0) then js_mul x rotationEffect else Num 0);
               newVx = js_add vx (js_mul (js_add forceX frameX) dt);
               newVy = js_add vy (js_mul (js_add forceY frameY) dt);
               newX = js_add x (js_mul newVx dt);
               newY = js_add y (js_mul newVy dt);
               newTrail = trail particle @ [\<lparr>tx = x, ty = y\<rparr>];
               newTrail = (if length newTrail > 20 then tl newTrail else newTrail)
           in (\<lparr>px = newX, py = newY, pvx = newVx, pvy = newVy, trail = newTrail,
                color = color particle, psize = psize particle\<rparr>, g)))"

text \<open>\<^verbatim>\<open>updateParticles\<close>: the map over the array, the generator threaded in array order.\<close>

fun updateParticles :: "number \<Rightarrow> 'c particle list \<Rightarrow> number \<Rightarrow> number \<Rightarrow> number \<Rightarrow> rng \<Rightarrow> 'c particle list \<times> rng" where
  "updateParticles particleSpeed [] dt centralMass rotation g = ([], g)"
| "updateParticles particleSpeed (p # ps) dt centralMass rotation g =
    (let (p', g1) = updateParticle particleSpeed dt centralMass rotation p g;
         (ps', g2) = updateParticles particleSpeed ps dt centralMass rotation g1
     in (p' # ps', g2))"

text \<open>
  The animation loop of \<^verbatim>\<open>renderParticleView\<close>: each frame replaces the array by
  \<^verbatim>\<open>updateParticles(particles, dt, mass, rotation)\<close>. The sliders may change mass and
  rotation between frames, so a run is a list of frames \<open>(dt, mass, rotation)\<close>.
\<close>

fun runFrames :: "number \<Rightarrow> 'c particle list \<Rightarrow> (number \<times> number \<times> number) list \<Rightarrow> rng \<Rightarrow> 'c particle list \<times> rng" where
  "runFrames particleSpeed ps [] g = (ps, g)"
| "runFrames particleSpeed ps ((dt, centralMass, rotation) # frames) g =
    (let (ps', g') = updateParticles particleSpeed ps dt centralMass rotation g
     in runFrames particleSpeed ps' frames g')"

section \<open>Relativistic effects between the two observers\<close>

text \<open>
  The records returned by \<^verbatim>\<open>calculateRelativisticEffects\<close>: the fields \<^verbatim>\<open>x\<close>, \<^verbatim>\<open>y\<close>, \<^verbatim>\<open>r\<close>
  of an observer are \<open>obs_x\<close>, \<open>obs_y\<close>, \<open>obs_r\<close>.
\<close>

record observer =
  obs_x :: number
  obs_y :: number
  obs_r :: number
  potential :: number
  timeDilation :: number
  escapeVelocity :: number

record effects =
  observer1 :: observer
  observer2 :: observer
  relativeTimeDilation :: number
  lightTravelTime :: number
  redshift :: number
  spaceContraction1 :: number
  spaceContraction2 :: number
  distance :: number

text \<open>
  \<^verbatim>\<open>calculateRelativisticEffects\<close> reads the component's state: \<open>mass\<close>,
  \<open>observer1Position\<close>, \<open>observer2Position\<close> and \<open>observer2Angle\<close> (in degrees). It has one
  return statement and no check of its inputs.
\<close>

definition calculateRelativisticEffects :: "number \<Rightarrow> number \<Rightarrow> number \<Rightarrow> number \<Rightarrow> effects" where
  "calculateRelativisticEffects mass observer1Position observer2Position observer2Angle =
    (let angleRad = js_div (js_mul observer2Angle js_PI) (Num 180);
         x2 = js_mul observer2Position (js_cos angleRad);
         y2 = js_mul observer2Position (js_sin angleRad);
         r1 = observer1Position;
         r2 = observer2Position;
         potential1 = js_div mass r1;
         potential2 = js_div mass r2;
         timeDilation1 = js_div (Num 1)
           (js_sqrt (js_sub (Num 1) (js_mul (js_mul (Num 2) potential1) SCALE_FACTOR)));
         timeDilation2 = js_div (Num 1)
           (js_sqrt (js_sub (Num 1) (js_mul (js_mul (Num 2) potential2) SCALE_FACTOR)));
         relTimeDilation = js_div timeDilation2 timeDilation1;
         contraction1 = js_sqrt (js_sub (Num 1) (js_mul (js_mul (Num 2) potential1) SCALE_FACTOR));
         contraction2 = js_sqrt (js_sub (Num 1) (js_mul (js_mul (Num 2) potential2) SCALE_FACTOR));
         dist = js_sqrt (js_sub (js_add (js_mul r1 r1) (js_mul r2 r2))
                  (js_mul (js_mul (js_mul (Num 2) r1) r2) (js_cos angleRad)));
         travelTime = js_mul dist
           (js_add (Num 1) (js_mul (js_div (js_add potential1 potential2) (Num 2)) SCALE_FACTOR));
         shift = js_sub
           (js_sqrt (js_div (js_sub (Num 1) (js_mul (js_mul (Num 2) potential2) SCALE_FACTOR))
                            (js_sub (Num 1) (js_mul (js_mul (Num 2) potential1) SCALE_FACTOR))))
           (Num 1);
         escapeVelocity1 = js_sqrt (js_mul (js_mul (Num 2) potential1) SCALE_FACTOR);
         escapeVelocity2 = js_sqrt (js_mul (js_mul (Num 2) potential2) SCALE_FACTOR)
     in \<lparr>observer1 = \<lparr>obs_x = observer1Position, obs_y = Num 0, obs_r = r1,
                         potential = potential1, timeDilation = timeDilation1,
                         escapeVelocity = escapeVelocity1\<rparr>,
         observer2 = \<lparr>obs_x = x2, obs_y = y2, obs_r = r2,
                         potential = potential2, timeDilation = timeDilation2,
                         escapeVelocity = escapeVelocity2\<rparr>,
         relativeTimeDilation = relTimeDilation,
         lightTravelTime = travelTime,
         redshift = shift,
         spaceContraction1 = contraction1,
         spaceContraction2 = contraction2,
         distance = dist\<rparr>)"

text \<open>\<open>closeTo x c e\<close>: the number \<open>x\<close> is finite and at most \<open>e\<close> away from \<open>c\<close>.\<close>

fun closeTo :: "number \<Rightarrow> real \<Rightarrow> real \<Rightarrow> bool" where
  "closeTo (Num v) c e = (\<bar>v - c\<bar> \<le> e)"
| "closeTo NaN c e = False"
| "closeTo PInf c e = False"
| "closeTo NInf c e = False"

section \<open>Double-precision rounding\<close>

text \<open>
  The numbers of the program are IEEE 754 binary64 values, and each arithmetic operation
  returns the exact result rounded to the nearest such value, ties to the even
  significand. Where a claim depends on the rounding, the source line is embedded a
  second time with the rounding written out. \<open>roundEven\<close> rounds a real to the nearest
  integer, ties to even. \<open>binadeExponent x\<close> is the exponent of the binade of \<open>x\<close>, not
  below the exponent -1022 of the subnormal numbers, so that the spacing of the format
  around \<open>x\<close> is \<open>2\<close> to the power \<open>binadeExponent x - 52\<close>. \<open>fl\<close> rounds a real to
  that grid, and \<open>rnd64\<close> is the rounding of a number: a result of magnitude \<open>2 ^ 1024\<close>
  or more is an infinity. The sign of zero is not modelled.
\<close>

definition roundEven :: "real \<Rightarrow> int" where
  "roundEven y =
    (if y - real_of_int \<lfloor>y\<rfloor> < 1 / 2 then \<lfloor>y\<rfloor>
     else if 1 / 2 < y - real_of_int \<lfloor>y\<rfloor> then \<lfloor>y\<rfloor> + 1
     else if even \<lfloor>y\<rfloor> then \<lfloor>y\<rfloor> else \<lfloor>y\<rfloor> + 1)"

definition binadeExponent :: "real \<Rightarrow> int" where
  "binadeExponent x = max \<lfloor>log 2 \<bar>x\<bar>\<rfloor> (- 1022)"

definition fl :: "real \<Rightarrow> real" where
  "fl x =
    (if x = 0 then 0
     else real_of_int (roundEven (x / 2 powr real_of_int (binadeExponent x - 52))) *
          2 powr real_of_int (binadeExponent x - 52))"

fun rnd64 :: "number \<Rightarrow> number" where
  "rnd64 (Num x) =
    (if 2 ^ 1024 \<le> \<bar>fl x\<bar> then (if x < 0 then NInf else PInf) else Num (fl x))"
| "rnd64 NaN = NaN"
| "rnd64 PInf = PInf"
| "rnd64 NInf = NInf"

text \<open>
  The operations of the redshift line in double precision (\<^verbatim>\<open>Math.sqrt\<close> as the correctly
  rounded square root of IEEE 754), and the literal \<^verbatim>\<open>0.1\<close> of \<^verbatim>\<open>SCALE_FACTOR\<close>, which
  is the binary64 value nearest to one tenth.
\<close>

definition js_sub64 :: "number \<Rightarrow> number \<Rightarrow> number" where
  "js_sub64 a b = rnd64 (js_sub a b)"

definition js_add64 :: "number \<Rightarrow> number \<Rightarrow> number" where
  "js_add64 a b = rnd64 (js_add a b)"

definition js_mul64 :: "number \<Rightarrow> number \<Rightarrow> number" where
  "js_mul64 a b = rnd64 (js_mul a b)"

definition js_div64 :: "number \<Rightarrow> number \<Rightarrow> number" where
  "js_div64 a b = rnd64 (js_div a b)"

definition js_sqrt64 :: "number \<Rightarrow> number" where
  "js_sqrt64 a = rnd64 (js_sqrt a)"

definition SCALE_FACTOR64 :: number where
  "SCALE_FACTOR64 = rnd64 SCALE_FACTOR"

text \<open>
  The redshift of \<^verbatim>\<open>calculateRelativisticEffects\<close> in double precision: the potentials
  \<^verbatim>\<open>mass / r1\<close> and \<^verbatim>\<open>mass / r2\<close> and the line
  \<^verbatim>\<open>Math.sqrt((1 - 2 * potential2 * SCALE_FACTOR) / (1 - 2 * potential1 * SCALE_FACTOR)) - 1\<close>,
  one rounding for each operation.
\<close>

definition redshift64 :: "number \<Rightarrow> number \<Rightarrow> number \<Rightarrow> number" where
  "redshift64 mass observer1Position observer2Position =
    (let r1 = observer1Position;
         r2 = observer2Position;
         potential1 = js_div64 mass r1;
         potential2 = js_div64 mass r2
     in js_sub64
          (js_sqrt64
             (js_div64
                (js_sub64 (Num 1) (js_mul64 (js_mul64 (Num 2) potential2) SCALE_FACTOR64))
                (js_sub64 (Num 1) (js_mul64 (js_mul64 (Num 2) potential1) SCALE_FACTOR64))))
          (Num 1))"

section \<open>Horizons of the rotating black hole\<close>

text \<open>
  The \<^verbatim>\<open>'kerr'\<close> case of \<^verbatim>\<open>renderExtremeObjects\<close>, with \<open>kerrMass = mass\<close> and
  \<open>kerrSpin = rotation\<close>: the two roots \<open>rPlus\<close> and \<open>rMinus\<close>, and the drawn radius
  \<open>horizonRadius = rPlus * kerrScale\<close> with \<open>kerrScale = SCALE_FACTOR\<close>.
\<close>

definition rPlus :: "number \<Rightarrow> number \<Rightarrow> number" where
  "rPlus kerrMass kerrSpin =
     js_add kerrMass (js_sqrt (js_sub (js_mul kerrMass kerrMass) (js_mul kerrSpin kerrSpin)))"

definition rMinus :: "number \<Rightarrow> number \<Rightarrow> number" where
  "rMinus kerrMass kerrSpin =
     js_sub kerrMass (js_sqrt (js_sub (js_mul kerrMass kerrMass) (js_mul kerrSpin kerrSpin)))"

definition horizonRadius :: "number \<Rightarrow> number \<Rightarrow> number" where
  "horizonRadius kerrMass kerrSpin = js_mul (rPlus kerrMass kerrSpin) SCALE_FACTOR"

section \<open>The decaying binary orbit\<close>

text \<open>
  The \<^verbatim>\<open>'merger'\<close> case of \<^verbatim>\<open>renderExtremeObjects\<close>: everything is computed from
  \<open>time = frameTime\<close> and the mass, with the constants \<open>initialSeparation = 40\<close> and
  \<open>decayRate = 0.03\<close>.
\<close>

record mergerOrbit =
  separation :: number
  orbitFrequency :: number
  orbitAngle :: number
  bh1x :: number
  bh1y :: number
  bh2x :: number
  bh2y :: number

definition mergerState :: "number \<Rightarrow> number \<Rightarrow> mergerOrbit" where
  "mergerState mass time =
    (let initialSeparation = Num 40;
         decayRate = Num (3 / 100);
         sep = js_max (Num 5) (js_mul initialSeparation (js_exp (js_mul (js_neg time) decayRate)));
         freq = js_mul (Num (5 / 100)) (js_pow (js_div sep initialSeparation) (Num (- (3 / 2))));
         ang = js_mul time freq;
         mass1 = js_mul mass (Num (6 / 10));
         mass2 = js_mul mass (Num (4 / 10));
         centerX = Num 0;
         centerY = Num 0
     in \<lparr>separation = sep, orbitFrequency = freq, orbitAngle = ang,
         bh1x = js_sub centerX (js_mul (js_mul sep (js_div mass2 (js_add mass1 mass2))) (js_cos ang)),
         bh1y = js_sub centerY (js_mul (js_mul sep (js_div mass2 (js_add mass1 mass2))) (js_sin ang)),
         bh2x = js_add centerX (js_mul (js_mul sep (js_div mass1 (js_add mass1 mass2))) (js_cos ang)),
         bh2y = js_add centerY (js_mul (js_mul sep (js_div mass1 (js_add mass1 mass2))) (js_sin ang))\<rparr>)"

text \<open>
  \<^verbatim>\<open>updateWaves\<close>: the two sources spiral in with \<open>initialDistance = 10\<close>, the same decay
  rate and the floor 2; each wave point is placed again around its source. The fields
  \<open>displacement\<close>, \<open>sourceX\<close> and \<open>sourceY\<close> are absent until the first update.
\<close>

record wavePoint =
  wx :: number
  wy :: number
  source :: nat
  radius :: number
  angle :: number
  phase :: number
  displacement :: "number option"
  sourceX :: "number option"
  sourceY :: "number option"

definition sourceDistance :: "number \<Rightarrow> number" where
  "sourceDistance time =
    (let initialDistance = Num 10;
         decayRate = Num (3 / 100)
     in js_max (Num 2) (js_mul initialDistance (js_exp (js_mul (js_neg time) decayRate))))"

definition sourceAngle :: "number \<Rightarrow> number" where
  "sourceAngle time = (let orbitFreq = Num (5 / 100) in js_mul time orbitFreq)"

definition updateWaves :: "wavePoint list \<Rightarrow> number \<Rightarrow> number \<Rightarrow> number \<Rightarrow> wavePoint list" where
  "updateWaves points time amplitude frequency =
    (let ang = sourceAngle time;
         dist = sourceDistance time;
         source1 = (js_mul (js_neg dist) (js_cos ang), js_mul (js_neg dist) (js_sin ang));
         source2 = (js_mul dist (js_cos ang), js_mul dist (js_sin ang))
     in map (\<lambda>point.
          let src = (if source point = 1 then source1 else source2);
              newAngle = js_add (angle point) (js_mul time (Num (1 / 10)));
              x = js_add (fst src) (js_mul (radius point) (js_cos newAngle));
              y = js_add (snd src) (js_mul (radius point) (js_sin newAngle));
              waveDisplacement = js_mul (js_sin (js_add (js_mul time frequency) (phase point))) amplitude
          in point\<lparr>wx := x, wy := y, angle := newAngle, displacement := Some waveDisplacement,
                   sourceX := Some (fst src), sourceY := Some (snd src)\<rparr>) points)"

section \<open>Light paths\<close>

text \<open>A sample \<^verbatim>\<open>{ x, y, z }\<close> of a light path (and a point of the grid).\<close>

record gridPoint =
  gx :: number
  gy :: number
  gz :: number

text \<open>
  The inner loop of \<^verbatim>\<open>calculateLightPaths\<close>, \<^verbatim>\<open>for (j = 0; j < steps; j++)\<close>, as a
  recursion on the number of steps left; it returns the samples pushed from this step on.
  The \<^verbatim>\<open>break\<close> ends the path. The angle \<^verbatim>\<open>theta\<close> computed in the rotation branch is
  never used and is left out.
\<close>

fun traceSteps :: "number \<Rightarrow> number \<Rightarrow> nat \<Rightarrow> number \<Rightarrow> number \<Rightarrow> number \<Rightarrow> number \<Rightarrow> gridPoint list" where
  "traceSteps mass rotation 0 x0 y0 vx0 vy0 = []"
| "traceSteps mass rotation (Suc n) x0 y0 vx0 vy0 =
    (let x = js_add x0 vx0;
         y = js_add y0 vy0;
         r = js_sqrt (js_add (js_mul x x) (js_mul y y))
     in if js_lt r (Num (5 / 2)) then []
        else
          (let forceFactor = js_div mass (js_mul (js_mul r r) r);
               vx1 = js_sub vx0 (js_mul x forceFactor);
               vy1 = js_sub vy0 (js_mul y forceFactor);
               rotFactor = js_mul (js_div (js_mul rotation mass) (js_mul (js_mul r r) r)) (Num (2 / 10));
               vx2 = (if js_gt rotation (Num 0) then js_add vx1 (js_mul (js_neg y) rotFactor) else vx1);
               vy2 = (if js_gt rotation (Num 0) then js_add vy1 (js_mul x rotFactor) else vy1);
               vMag = js_sqrt (js_add (js_mul vx2 vx2) (js_mul vy2 vy2));
               vx3 = js_mul (js_div vx2 vMag) (Num (1 / 2));
               vy3 = js_mul (js_div vy2 vMag) (Num (1 / 2));
               z = js_div (js_neg mass) r
           in \<lparr>gx = x, gy = y, gz = z\<rparr> # traceSteps mass rotation n x y vx3 vy3))"

text \<open>
  One path of \<^verbatim>\<open>calculateLightPaths\<close>: the starting point at the source distance, then
  100 steps. The source distance is the component's \<open>observer1Position\<close>.
\<close>

definition lightPath :: "number \<Rightarrow> number \<Rightarrow> number \<Rightarrow> nat \<Rightarrow> nat \<Rightarrow> gridPoint list" where
  "lightPath observer1Position mass rotation numPaths i =
    (let srcDistance = observer1Position;
         ang = js_div (js_mul (js_mul (Num (real i)) (Num 2)) js_PI) (Num (real numPaths));
         x0 = js_mul srcDistance (js_cos ang);
         y0 = js_mul srcDistance (js_sin ang);
         r0 = js_sqrt (js_add (js_mul x0 x0) (js_mul y0 y0));
         z0 = js_div (js_neg mass) r0;
         steps = 100;
         vx = js_mul (js_neg (js_cos ang)) (Num (1 / 2));
         vy = js_mul (js_neg (js_sin ang)) (Num (1 / 2))
     in \<lparr>gx = x0, gy = y0, gz = z0\<rparr> # traceSteps mass rotation steps x0 y0 vx vy)"

definition calculateLightPaths :: "number \<Rightarrow> number \<Rightarrow> number \<Rightarrow> nat \<Rightarrow> gridPoint list list" where
  "calculateLightPaths observer1Position mass rotation numPaths =
     map (lightPath observer1Position mass rotation numPaths) [0..<numPaths]"

text \<open>The radius of a sample, as the loop computes it: \<^verbatim>\<open>Math.sqrt(x*x + y*y)\<close>.\<close>

definition sampleRadius :: "gridPoint \<Rightarrow> number" where
  "sampleRadius p = js_sqrt (js_add (js_mul (gx p) (gx p)) (js_mul (gy p) (gy p)))"

definition sampleFinite :: "gridPoint \<Rightarrow> bool" where
  "sampleFinite p = (isFinite (gx p) \<and> isFinite (gy p) \<and> isFinite (gz p))"

text \<open>
  The invariant of the tracing loop, on the reals a state \<open>(x, y, vx, vy)\<close> holds. With
  rotation the angular momentum \<open>x * vy - y * vx\<close> never becomes negative; without
  rotation the ray stays on its radius, moving inward at speed 1/2 outside radius 5/2.
\<close>

definition rayInvariant :: "real \<Rightarrow> real \<Rightarrow> real \<Rightarrow> real \<Rightarrow> real \<Rightarrow> bool" where
  "rayInvariant rot x y vx vy =
    (if 0 < rot then 0 \<le> x * vy - y * vx
     else x * vy - y * vx = 0 \<and> x * vx + y * vy < 0 \<and>
          vx * vx + vy * vy = 1 / 4 \<and> 25 / 4 \<le> x * x + y * y)"

section \<open>Numbers as text\<close>

text \<open>
  \<open>natDigits n\<close> is the decimal numeral of \<open>n\<close>; \<open>fixedText n f\<close> is the numeral of
  \<open>n / 10 ^ f\<close> with exactly \<open>f\<close> digits after the point.
\<close>

fun natDigits :: "nat \<Rightarrow> string" where
  "natDigits n =
    (if n < 10 then [''0123456789'' ! n]
     else natDigits (n div 10) @ [''0123456789'' ! (n mod 10)])"

definition fixedText :: "nat \<Rightarrow> nat \<Rightarrow> string" where
  "fixedText n f =
    (if f = 0 then natDigits n
     else natDigits (n div 10 ^ f) @ ''.'' @
          replicate (f - length (natDigits (n mod 10 ^ f))) (CHR ''0'') @ natDigits (n mod 10 ^ f))"

text \<open>
  The plain decimal text of \<open>k / 10 ^ 4\<close>, as the conversion of a number to a string prints
  it: no trailing zeros, and no point when the value is integral.
\<close>

definition shortDecimal :: "nat \<Rightarrow> string" where
  "shortDecimal k =
    (let fraction = rev (dropWhile (\<lambda>c. c = CHR ''0'')
           (rev (replicate (4 - length (natDigits (k mod 10 ^ 4))) (CHR ''0'') @
                 natDigits (k mod 10 ^ 4))))
     in if fraction = [] then natDigits (k div 10 ^ 4)
        else natDigits (k div 10 ^ 4) @ ''.'' @ fraction)"

text \<open>
  The conversion of a number to a string (in a template literal). The digits JavaScript
  prints for a positive number in exponent notation, or with more than four decimals,
  are the shortest that read back as the same 64-bit value: they belong to the binary
  format, not to the real number, and are the parameter \<open>sci\<close>. The numbers that
  \<^verbatim>\<open>generateFacts\<close> converts are integers and multiples of \<open>10 ^ - 4\<close>.
\<close>

fun jsToString :: "(real \<Rightarrow> string) \<Rightarrow> number \<Rightarrow> string" where
  "jsToString sci NaN = ''NaN''"
| "jsToString sci PInf = ''Infinity''"
| "jsToString sci NInf = ''-Infinity''"
| "jsToString sci (Num x) =
    (if x = 0 then ''0''
     else (if x < 0 then ''-'' else []) @
          (if \<bar>x\<bar> < 10 ^ 21 \<and> 1 / 10 ^ 6 \<le> \<bar>x\<bar> \<and> real_of_int \<lfloor>\<bar>x\<bar> * 10 ^ 4\<rfloor> = \<bar>x\<bar> * 10 ^ 4
           then shortDecimal (nat \<lfloor>\<bar>x\<bar> * 10 ^ 4\<rfloor>)
           else sci \<bar>x\<bar>))"

text \<open>
  \<^verbatim>\<open>x.toFixed(f)\<close> makes a string, and the source passes two such strings to
  \<^verbatim>\<open>Math.abs\<close>, which converts them back to numbers. A numeric string is therefore
  modelled as its text together with the number that the text denotes. \<open>toFixed\<close> follows
  ECMAScript: a non-finite number prints as itself, the sign is taken off first, a
  magnitude of \<open>10 ^ 21\<close> or more prints as the plain conversion does, and otherwise the
  magnitude is rounded to the nearest multiple of \<open>10 ^ - f\<close> (the larger one on a tie).
\<close>

record numericString =
  textOf :: string
  numberOf :: number

fun toFixed :: "(real \<Rightarrow> string) \<Rightarrow> number \<Rightarrow> nat \<Rightarrow> numericString" where
  "toFixed sci NaN f = \<lparr>textOf = ''NaN'', numberOf = NaN\<rparr>"
| "toFixed sci PInf f = \<lparr>textOf = ''Infinity'', numberOf = PInf\<rparr>"
| "toFixed sci NInf f = \<lparr>textOf = ''-Infinity'', numberOf = NInf\<rparr>"
| "toFixed sci (Num x) f =
    (if 10 ^ 21 \<le> \<bar>x\<bar>
     then \<lparr>textOf = (if x < 0 then ''-'' else []) @ sci \<bar>x\<bar>, numberOf = Num x\<rparr>
     else (let n = nat \<lfloor>\<bar>x\<bar> * 10 ^ f + 1 / 2\<rfloor>
           in \<lparr>textOf = (if x < 0 then ''-'' else []) @ fixedText n f,
               numberOf = Num ((if x < 0 then - 1 else 1) * (real n / 10 ^ f))\<rparr>))"

text \<open>\<^verbatim>\<open>Math.floor\<close>, the remainder \<^verbatim>\<open>%\<close> (the sign of the dividend) and \<^verbatim>\<open>!==\<close>.\<close>

fun js_floor :: "number \<Rightarrow> number" where
  "js_floor (Num a) = Num (real_of_int \<lfloor>a\<rfloor>)"
| "js_floor NaN = NaN"
| "js_floor PInf = PInf"
| "js_floor NInf = NInf"

fun js_rem :: "number \<Rightarrow> number \<Rightarrow> number" where
  "js_rem (Num a) (Num b) =
    (if b = 0 then NaN
     else Num (a - b * real_of_int (if 0 \<le> a / b then \<lfloor>a / b\<rfloor> else \<lceil>a / b\<rceil>)))"
| "js_rem (Num a) PInf = Num a"
| "js_rem (Num a) NInf = Num a"
| "js_rem NaN b = NaN"
| "js_rem a NaN = NaN"
| "js_rem PInf b = NaN"
| "js_rem NInf b = NaN"

fun js_strict_neq :: "number \<Rightarrow> number \<Rightarrow> bool" where
  "js_strict_neq NaN b = True"
| "js_strict_neq a NaN = True"
| "js_strict_neq a b = (a \<noteq> b)"

text \<open>\<^verbatim>\<open>String.prototype.trim\<close>, for the blanks the source can produce.\<close>

definition trim :: "string \<Rightarrow> string" where
  "trim s = rev (dropWhile (\<lambda>c. c = CHR '' '') (rev (dropWhile (\<lambda>c. c = CHR '' '') s)))"

section \<open>The fact generator\<close>

text \<open>
  \<^verbatim>\<open>formatTimeDifference\<close>, the helper inside \<^verbatim>\<open>generateFacts\<close>. \<open>unitText sci q name sep\<close>
  is one of the six conditional appends \<^verbatim>\<open>if (q > 0) result += `${q} name${q !== 1 ? "s" : ""} ` \<close>.
\<close>

definition unitText :: "(real \<Rightarrow> string) \<Rightarrow> number \<Rightarrow> string \<Rightarrow> string \<Rightarrow> string" where
  "unitText sci q name sep =
    (if js_gt q (Num 0)
     then jsToString sci q @ '' '' @ name @ (if js_strict_neq q (Num 1) then ''s'' else []) @ sep
     else [])"

definition formatTimeDifference :: "(real \<Rightarrow> string) \<Rightarrow> number \<Rightarrow> string" where
  "formatTimeDifference sci seconds =
    (if js_lt seconds (Num 60) then textOf (toFixed sci seconds 2) @ '' seconds''
     else
       (let years = js_floor (js_div seconds (Num 31536000));
            remainingAfterYears = js_rem seconds (Num 31536000);
            months = js_floor (js_div remainingAfterYears (Num 2592000));
            remainingAfterMonths = js_rem remainingAfterYears (Num 2592000);
            days = js_floor (js_div remainingAfterMonths (Num 86400));
            remainingAfterDays = js_rem remainingAfterMonths (Num 86400);
            hours = js_floor (js_div remainingAfterDays (Num 3600));
            remainingAfterHours = js_rem remainingAfterDays (Num 3600);
            minutes = js_floor (js_div remainingAfterHours (Num 60));
            remainingSeconds = js_floor (js_rem remainingAfterHours (Num 60))
        in trim (unitText sci years ''year'' '' '' @ unitText sci months ''month'' '' '' @
                 unitText sci days ''day'' '' '' @ unitText sci hours ''hour'' '' '' @
                 unitText sci minutes ''minute'' '' '' @ unitText sci remainingSeconds ''second'' [])))"

record facts =
  timeDilationFact :: string
  clockFact :: string
  lightFact :: string
  redshiftFact :: string
  escapeVelocityFact1 :: string
  escapeVelocityFact2 :: string
  properDistanceFact :: string
  horizonFact :: string
  einsteinRingFact :: string

text \<open>
  \<^verbatim>\<open>generateFacts(effects)\<close>; \<open>mass\<close> is the component's state. \<^verbatim>\<open>Math.abs\<close> of a
  \<^verbatim>\<open>toFixed\<close> string takes the number the string denotes.
\<close>

definition generateFacts :: "(real \<Rightarrow> string) \<Rightarrow> number \<Rightarrow> effects \<Rightarrow> facts" where
  "generateFacts sci mass e =
    (let timeDilationPercent = toFixed sci (js_mul (js_sub (relativeTimeDilation e) (Num 1)) (Num 100)) 4;
         secondsDifference = js_mul (Num 31536000) (js_abs (js_sub (relativeTimeDilation e) (Num 1)));
         timeDifferenceStr = formatTimeDifference sci secondsDifference;
         redshiftPercent = toFixed sci (js_mul (redshift e) (Num 100)) 4;
         properDistance = js_div (distance e)
           (js_add (Num 1)
              (js_mul (js_div (js_add (potential (observer1 e)) (potential (observer2 e))) (Num 2))
                 SCALE_FACTOR));
         schwarzschildRadius = js_mul (js_mul (Num 2) mass) SCALE_FACTOR;
         einsteinRingRadius = js_mul (js_mul (Num 4) mass) SCALE_FACTOR
     in \<lparr>timeDilationFact =
           (if js_gt (relativeTimeDilation e) (Num 1)
            then ''Observer 2 experiences time '' @ textOf timeDilationPercent @
                 ''% slower than Observer 1 due to being deeper in the gravitational well.''
            else ''Observer 1 experiences time '' @
                 jsToString sci (js_abs (numberOf timeDilationPercent)) @
                 ''% slower than Observer 2 due to being deeper in the gravitational well.''),
         clockFact = ''After 1 year, their clocks would differ by approximately '' @
                 timeDifferenceStr @ ''.'',
         lightFact = ''Light takes approximately '' @ textOf (toFixed sci (lightTravelTime e) 2) @
                 '' time units to travel between the observers.'',
         redshiftFact =
           (if js_gt (redshift e) (Num 0)
            then ''Light from Observer 2 appears redshifted by '' @ textOf redshiftPercent @
                 ''% to Observer 1.''
            else ''Light from Observer 1 appears redshifted by '' @
                 jsToString sci (js_abs (numberOf redshiftPercent)) @ ''% to Observer 2.''),
         escapeVelocityFact1 = ''Observer 1'' @ [CHR 0x27] @ ''s escape velocity is '' @
                 textOf (toFixed sci (js_mul (escapeVelocity (observer1 e)) (Num 100)) 2) @
                 ''% of the speed of light.'',
         escapeVelocityFact2 = ''Observer 2'' @ [CHR 0x27] @ ''s escape velocity is '' @
                 textOf (toFixed sci (js_mul (escapeVelocity (observer2 e)) (Num 100)) 2) @
                 ''% of the speed of light.'',
         properDistanceFact = ''The proper distance between observers is '' @
                 textOf (toFixed sci properDistance 2) @ '' units.'',
         horizonFact = ''At this mass, the event horizon would be at '' @
                 textOf (toFixed sci schwarzschildRadius 2) @ '' units from center.'',
         einsteinRingFact =
                 ''Light from a distant source directly behind the mass would form an Einstein ring of radius '' @
                 textOf (toFixed sci einsteinRingRadius 2) @ '' units.''\<rparr>)"

section \<open>Properties of the particle integrator\<close>

lemma updateParticle_color_size:
  "color (fst (updateParticle speed dt m rot p g)) = color p \<and>
   psize (fst (updateParticle speed dt m rot p g)) = psize p"
  by (simp add: updateParticle_def Let_def split: prod.split)

lemma updateParticle_trail:
  "length (trail p) \<le> 20 \<Longrightarrow> length (trail (fst (updateParticle speed dt m rot p g))) \<le> 20"
  by (simp add: updateParticle_def Let_def split: prod.split)

lemma updateParticles_length:
  "length (fst (updateParticles speed ps dt m rot g)) = length ps"
proof (induction ps arbitrary: g)
  case Nil
  show ?case by simp
next
  case (Cons p ps)
  obtain p' g1 where a: "updateParticle speed dt m rot p g = (p', g1)"
    by (cases "updateParticle speed dt m rot p g")
  obtain ps' g2 where b: "updateParticles speed ps dt m rot g1 = (ps', g2)"
    by (cases "updateParticles speed ps dt m rot g1")
  from Cons.IH [of g1] b have "length ps' = length ps" by simp
  with a b show ?case by simp
qed

lemma runFrames_length:
  "length (fst (runFrames speed ps frames g)) = length ps"
proof (induction frames arbitrary: ps g)
  case Nil
  show ?case by simp
next
  case (Cons f frames)
  obtain dt m rot where f: "f = (dt, m, rot)" by (cases f)
  obtain ps' g' where u: "updateParticles speed ps dt m rot g = (ps', g')"
    by (cases "updateParticles speed ps dt m rot g")
  have "length ps' = length ps"
    using updateParticles_length [of speed ps dt m rot g] u by simp
  with Cons.IH [of ps' g'] f u show ?case by simp
qed




lemma updateParticles_trails:
  "list_all (\<lambda>p. length (trail p) \<le> 20) ps \<Longrightarrow>
   list_all (\<lambda>p. length (trail p) \<le> 20) (fst (updateParticles speed ps dt m rot g))"
proof (induction ps arbitrary: g)
  case Nil
  show ?case by simp
next
  case (Cons p ps)
  obtain p' g1 where a: "updateParticle speed dt m rot p g = (p', g1)"
    by (cases "updateParticle speed dt m rot p g")
  obtain ps' g2 where b: "updateParticles speed ps dt m rot g1 = (ps', g2)"
    by (cases "updateParticles speed ps dt m rot g1")
  from Cons.prems have "length (trail p) \<le> 20" by simp
  with updateParticle_trail [of p speed dt m rot g] a have "length (trail p') \<le> 20" by simp
  moreover from Cons.IH [of g1] Cons.prems b
  have "list_all (\<lambda>p. length (trail p) \<le> 20) ps'" by simp
  ultimately show ?case using a b by simp
qed

lemma runFrames_trails:
  "list_all (\<lambda>p. length (trail p) \<le> 20) ps \<Longrightarrow>
   list_all (\<lambda>p. length (trail p) \<le> 20) (fst (runFrames speed ps frames g))"
proof (induction frames arbitrary: ps g)
  case Nil
  then show ?case by simp
next
  case (Cons f frames)
  obtain dt m rot where f: "f = (dt, m, rot)" by (cases f)
  obtain ps' g' where u: "updateParticles speed ps dt m rot g = (ps', g')"
    by (cases "updateParticles speed ps dt m rot g")
  have "list_all (\<lambda>p. length (trail p) \<le> 20) ps'"
    using updateParticles_trails [OF Cons.prems, of speed dt m rot g] u by simp
  from Cons.IH [OF this, of g'] f u show ?case by simp
qed

lemma initLoop_length: "length (fst (initLoop ir cnt speed i n g)) = n"
proof (induction n arbitrary: i g)
  case 0
  show ?case by simp
next
  case (Suc n)
  show ?case
    using Suc.IH by (simp add: Let_def split: prod.split) (metis fst_conv)
qed

lemma initParticles_length: "length (fst (initParticles ir cnt speed g)) = cnt"
  by (simp add: initParticles_def initLoop_length)

lemma initLoop_trails:
  "list_all (\<lambda>p. trail p = []) (fst (initLoop ir cnt speed i n g))"
proof (induction n arbitrary: i g)
  case 0
  show ?case by simp
next
  case (Suc n)
  show ?case
    using Suc.IH by (simp add: Let_def split: prod.split) (metis fst_conv)
qed

lemma initParticles_trails:
  "list_all (\<lambda>p. length (trail p) \<le> 20) (fst (initParticles ir cnt speed g))"
  using initLoop_trails [of ir cnt speed 0 cnt g]
  by (simp add: initParticles_def list_all_iff)

text \<open>
  C5. A particle whose trail has at most 20 entries has at most 20 after its step: the
  step appends one entry and drops the oldest on overflow, and a particle sampled again
  starts with an empty trail. So when no trail of the array is longer than 20 entries,
  none is after a step of \<open>updateParticles\<close>. \<open>initParticles\<close> makes empty trails, so no
  trail is longer than 20 entries after any run of frames.
\<close>

theorem trail_length_bounded:
  "(length (trail q) \<le> 20 \<longrightarrow>
      length (trail (fst (updateParticle speed dt m rot q g))) \<le> 20) \<and>
   ((\<forall>p \<in> set ps. length (trail p) \<le> 20) \<longrightarrow>
      (\<forall>p \<in> set (fst (updateParticles speed ps dt m rot g)). length (trail p) \<le> 20)) \<and>
   (\<forall>p \<in> set (fst (runFrames speed (fst (initParticles ir cnt speed0 g0)) frames
                      (snd (initParticles ir cnt speed0 g0)))). length (trail p) \<le> 20)"
  using updateParticles_trails [of ps speed dt m rot g]
    runFrames_trails [OF initParticles_trails, of speed ir cnt speed0 g0 frames
      "snd (initParticles ir cnt speed0 g0)"]
    updateParticle_trail [of q speed dt m rot g]
  by (simp add: list_all_iff)

theorem trail_length_bounded_witness:
  "length (trail \<lparr>px = Num 10, py = Num 0, pvx = Num 0, pvy = Num 1,
      trail = replicate 20 \<lparr>tx = Num 9, ty = Num 0\<rparr>, color = (), psize = Num 1\<rparr>) \<le> 20 \<and>
   length (trail (fst (updateParticle (Num (3 / 10)) (Num (1 / 10)) (Num 10) (Num 0)
      \<lparr>px = Num 10, py = Num 0, pvx = Num 0, pvy = Num 1,
        trail = replicate 20 \<lparr>tx = Num 9, ty = Num 0\<rparr>, color = (), psize = Num 1\<rparr>
      (\<lambda>n. 0)))) \<le> 20 \<and>
   length (trail (hd (fst (updateParticles (Num (3 / 10))
      [\<lparr>px = Num 10, py = Num 0, pvx = Num 0, pvy = Num 1,
        trail = replicate 20 \<lparr>tx = Num 9, ty = Num 0\<rparr>, color = (), psize = Num 1\<rparr>]
      (Num (1 / 10)) (Num 10) (Num 0) (\<lambda>n. 0))))) \<le> 20 \<and>
   length (fst (runFrames (Num (3 / 10)) (fst (initParticles (\<lambda>t. ()) 1 (Num (3 / 10)) (\<lambda>n. 0)))
      [(Num (1 / 10), Num 10, Num 0)] (snd (initParticles (\<lambda>t. ()) 1 (Num (3 / 10)) (\<lambda>n. 0))))) = 1 \<and>
   length (trail (hd (fst (runFrames (Num (3 / 10)) (fst (initParticles (\<lambda>t. ()) 1 (Num (3 / 10)) (\<lambda>n. 0)))
      [(Num (1 / 10), Num 10, Num 0)] (snd (initParticles (\<lambda>t. ()) 1 (Num (3 / 10)) (\<lambda>n. 0))))))) \<le> 20"
proof -
  let ?p = "\<lparr>px = Num 10, py = Num 0, pvx = Num 0, pvy = Num 1,
        trail = replicate 20 \<lparr>tx = Num 9, ty = Num 0\<rparr>, color = (), psize = Num 1\<rparr>"
  let ?run = "fst (runFrames (Num (3 / 10)) (fst (initParticles (\<lambda>t. ()) 1 (Num (3 / 10)) (\<lambda>n. 0)))
      [(Num (1 / 10), Num 10, Num 0)] (snd (initParticles (\<lambda>t. ()) 1 (Num (3 / 10)) (\<lambda>n. 0))))"
  note inst = trail_length_bounded [where q = ?p and ps = "[?p]" and speed = "Num (3 / 10)"
      and dt = "Num (1 / 10)" and m = "Num 10" and rot = "Num 0" and g = "\<lambda>n. 0"
      and frames = "[(Num (1 / 10), Num 10, Num 0)]" and ir = "\<lambda>t. ()" and cnt = 1
      and ?speed0.0 = "Num (3 / 10)" and ?g0.0 = "\<lambda>n. 0"]
  have a: "length (trail ?p) \<le> 20" by simp
  with inst have a': "length (trail (fst (updateParticle (Num (3 / 10)) (Num (1 / 10)) (Num 10) (Num 0)
      ?p (\<lambda>n. 0)))) \<le> 20"
    by blast
  have b: "length (trail (hd (fst (updateParticles (Num (3 / 10)) [?p]
      (Num (1 / 10)) (Num 10) (Num 0) (\<lambda>n. 0))))) \<le> 20"
    using inst
    by (simp add: updateParticle_def Let_def SCALE_FACTOR_def js_gt_def split: prod.split)
  have len: "length ?run = 1"
    by (simp only: runFrames_length initParticles_length)
  then have "?run \<noteq> []" by auto
  then have "hd ?run \<in> set ?run" by simp
  with inst have c: "length (trail (hd ?run)) \<le> 20" by blast
  from a a' b len c show ?thesis by blast
qed

lemma updateParticles_color_size:
  "map color (fst (updateParticles speed ps dt m rot g)) = map color ps \<and>
   map psize (fst (updateParticles speed ps dt m rot g)) = map psize ps"
proof (induction ps arbitrary: g)
  case Nil
  show ?case by simp
next
  case (Cons p ps)
  obtain p' g1 where a: "updateParticle speed dt m rot p g = (p', g1)"
    by (cases "updateParticle speed dt m rot p g")
  obtain ps' g2 where b: "updateParticles speed ps dt m rot g1 = (ps', g2)"
    by (cases "updateParticles speed ps dt m rot g1")
  from updateParticle_color_size [of speed dt m rot p g] a
  have "color p' = color p \<and> psize p' = psize p" by simp
  with Cons.IH [of g1] a b show ?case by simp
qed

text \<open>
  C10. A step of \<open>updateParticles\<close> leaves the colour and the size of every particle as they
  were, position by position in the array: on the orbiting branch and on the branch that
  samples the particle again.
\<close>

theorem color_size_unchanged:
  "map color (fst (updateParticles speed ps dt m rot g)) = map color ps \<and>
   map psize (fst (updateParticles speed ps dt m rot g)) = map psize ps \<and>
   color (fst (updateParticle speed dt m rot p g)) = color p \<and>
   psize (fst (updateParticle speed dt m rot p g)) = psize p"
  by (simp add: updateParticles_color_size updateParticle_color_size)

section \<open>Properties of the relativistic effects\<close>

lemma js_sub_Num: "js_sub (Num a) (Num b) = Num (a - b)"
  by (simp add: js_sub_def)

lemma two_scaled: "js_mul (js_mul (Num 2) (Num p)) SCALE_FACTOR = Num (2 * p * (1 / 10))"
  by (simp add: SCALE_FACTOR_def)

lemma cosine_rule_nonneg: "0 \<le> r1 * r1 + r2 * r2 - 2 * r1 * r2 * cos (t::real)"
proof -
  have e: "(sin t)\<^sup>2 + (cos t)\<^sup>2 = 1" by simp
  have ring: "(r1 - r2 * c)\<^sup>2 + r2\<^sup>2 * s\<^sup>2 = r1 * r1 - 2 * r1 * r2 * c + r2\<^sup>2 * (s\<^sup>2 + c\<^sup>2)"
    for c s :: real
    by (simp add: power2_eq_square algebra_simps)
  have "(r1 - r2 * cos t)\<^sup>2 + r2\<^sup>2 * (sin t)\<^sup>2 =
        r1 * r1 - 2 * r1 * r2 * cos t + r2\<^sup>2 * ((sin t)\<^sup>2 + (cos t)\<^sup>2)"
    by (rule ring)
  also have "\<dots> = r1 * r1 + r2 * r2 - 2 * r1 * r2 * cos t"
    by (simp only: e) (simp add: power2_eq_square)
  finally have "r1 * r1 + r2 * r2 - 2 * r1 * r2 * cos t =
                (r1 - r2 * cos t)\<^sup>2 + r2\<^sup>2 * (sin t)\<^sup>2"
    by simp
  then show ?thesis by simp
qed

lemma effects_in_domain:
  fixes m r1 r2 a :: real
  defines "p1 \<equiv> m / r1" and "p2 \<equiv> m / r2"
  defines "a1 \<equiv> 1 - 2 * p1 * (1 / 10)" and "a2 \<equiv> 1 - 2 * p2 * (1 / 10)"
  defines "t \<equiv> a * pi / 180"
  defines "d \<equiv> sqrt (r1 * r1 + r2 * r2 - 2 * r1 * r2 * cos t)"
  assumes r: "r1 \<noteq> 0" "r2 \<noteq> 0" and dom: "0 < a1" "0 < a2"
  shows "calculateRelativisticEffects (Num m) (Num r1) (Num r2) (Num a) =
    \<lparr>observer1 = \<lparr>obs_x = Num r1, obs_y = Num 0, obs_r = Num r1, potential = Num p1,
        timeDilation = Num (1 / sqrt a1),
        escapeVelocity = js_sqrt (Num (2 * p1 * (1 / 10)))\<rparr>,
     observer2 = \<lparr>obs_x = Num (r2 * cos t), obs_y = Num (r2 * sin t), obs_r = Num r2,
        potential = Num p2, timeDilation = Num (1 / sqrt a2),
        escapeVelocity = js_sqrt (Num (2 * p2 * (1 / 10)))\<rparr>,
     relativeTimeDilation = Num ((1 / sqrt a2) / (1 / sqrt a1)),
     lightTravelTime = Num (d * (1 + (p1 + p2) / 2 * (1 / 10))),
     redshift = Num (sqrt (a2 / a1) - 1),
     spaceContraction1 = Num (sqrt a1),
     spaceContraction2 = Num (sqrt a2),
     distance = Num d\<rparr>"
proof -
  have P1: "js_div (Num m) (Num r1) = Num p1" and P2: "js_div (Num m) (Num r2) = Num p2"
    using r by (simp_all add: p1_def p2_def)
  have A1: "js_sub (Num 1) (Num (2 * p1 * (1 / 10))) = Num a1"
    and A2: "js_sub (Num 1) (Num (2 * p2 * (1 / 10))) = Num a2"
    by (simp_all only: js_sub_Num a1_def a2_def)
  have S1: "js_sqrt (Num a1) = Num (sqrt a1)" and S2: "js_sqrt (Num a2) = Num (sqrt a2)"
    using dom by simp_all
  have T1: "js_div (Num 1) (Num (sqrt a1)) = Num (1 / sqrt a1)"
    and T2: "js_div (Num 1) (Num (sqrt a2)) = Num (1 / sqrt a2)"
    using dom by simp_all
  have R: "js_div (Num (1 / sqrt a2)) (Num (1 / sqrt a1)) = Num ((1 / sqrt a2) / (1 / sqrt a1))"
    using dom by simp
  have Q: "js_div (Num a2) (Num a1) = Num (a2 / a1)"
    using dom by simp
  have "0 \<le> a2 / a1"
    using dom by simp
  then have Z: "js_sub (js_sqrt (Num (a2 / a1))) (Num 1) = Num (sqrt (a2 / a1) - 1)"
    by (simp add: js_sub_def)
  have TH: "js_div (js_mul (Num a) js_PI) (Num 180) = Num t"
    by (simp add: js_PI_def t_def)
  have C: "js_cos (Num t) = Num (cos t)" and Sn: "js_sin (Num t) = Num (sin t)"
    by simp_all
  have X2: "js_mul (Num r2) (Num (cos t)) = Num (r2 * cos t)"
    and Y2: "js_mul (Num r2) (Num (sin t)) = Num (r2 * sin t)"
    by simp_all
  have D: "js_sqrt (js_sub (js_add (js_mul (Num r1) (Num r1)) (js_mul (Num r2) (Num r2)))
                  (js_mul (js_mul (js_mul (Num 2) (Num r1)) (Num r2)) (Num (cos t)))) = Num d"
    using cosine_rule_nonneg [of r1 r2 t] by (simp add: js_sub_def d_def)
  have L: "js_mul (Num d) (js_add (Num 1) (js_mul (js_div (js_add (Num p1) (Num p2)) (Num 2)) SCALE_FACTOR))
            = Num (d * (1 + (p1 + p2) / 2 * (1 / 10)))"
    by (simp add: SCALE_FACTOR_def)
  show ?thesis
    unfolding calculateRelativisticEffects_def Let_def
    by (simp only: TH C Sn X2 Y2 P1 P2 two_scaled A1 A2 S1 S2 T1 T2 R Q Z D L)
qed

text \<open>
  C1. The time-dilation formula is evaluated without a check of its domain, and no error
  is signalled. With mass 50, observer 1 at radius 30 and observer 2 at radius 5 (all
  within the sliders' ranges) the term \<open>2 * potential * SCALE_FACTOR\<close> is 2: the returned
  time dilation of observer 2, the relative time dilation and the redshift are \<open>NaN\<close>,
  and the time-dilation sentence of \<open>generateFacts\<close> reads \<open>NaN%\<close>. With observer 2 at
  radius 10 the term is 1 and the returned time dilation is \<open>Infinity\<close>.
\<close>

theorem domain_not_validated:
  "timeDilation (observer2 (calculateRelativisticEffects (Num 50) (Num 30) (Num 5) (Num 120))) = NaN \<and>
   relativeTimeDilation (calculateRelativisticEffects (Num 50) (Num 30) (Num 5) (Num 120)) = NaN \<and>
   redshift (calculateRelativisticEffects (Num 50) (Num 30) (Num 5) (Num 120)) = NaN \<and>
   timeDilationFact (generateFacts sci (Num 50)
       (calculateRelativisticEffects (Num 50) (Num 30) (Num 5) (Num 120))) =
     ''Observer 1 experiences time NaN% slower than Observer 2 due to being deeper in the gravitational well.'' \<and>
   timeDilation (observer2 (calculateRelativisticEffects (Num 50) (Num 30) (Num 10) (Num 120))) = PInf"
proof -
  have a: "timeDilation (observer2 (calculateRelativisticEffects (Num 50) (Num 30) (Num 5) (Num 120))) = NaN"
    by (simp add: calculateRelativisticEffects_def Let_def SCALE_FACTOR_def js_PI_def js_sub_def)
  have b: "relativeTimeDilation (calculateRelativisticEffects (Num 50) (Num 30) (Num 5) (Num 120)) = NaN"
    by (simp add: calculateRelativisticEffects_def Let_def SCALE_FACTOR_def js_PI_def js_sub_def)
  have c: "redshift (calculateRelativisticEffects (Num 50) (Num 30) (Num 5) (Num 120)) = NaN"
    by (simp add: calculateRelativisticEffects_def Let_def SCALE_FACTOR_def js_PI_def js_sub_def)
  have d: "timeDilationFact (generateFacts sci (Num 50)
       (calculateRelativisticEffects (Num 50) (Num 30) (Num 5) (Num 120))) =
     ''Observer 1 experiences time NaN% slower than Observer 2 due to being deeper in the gravitational well.''"
    by (simp add: generateFacts_def Let_def b js_gt_def js_sub_def)
  have e: "timeDilation (observer2 (calculateRelativisticEffects (Num 50) (Num 30) (Num 10) (Num 120))) = PInf"
    by (simp add: calculateRelativisticEffects_def Let_def SCALE_FACTOR_def js_PI_def js_sub_def signedInf_def)
  from a b c d e show ?thesis by blast
qed

lemma example_effects:
  "timeDilation (observer1 (calculateRelativisticEffects (Num 10) (Num 30) (Num 20) (Num 120))) = Num (1 / sqrt (14 / 15))"
  "timeDilation (observer2 (calculateRelativisticEffects (Num 10) (Num 30) (Num 20) (Num 120))) = Num (1 / sqrt (9 / 10))"
  "relativeTimeDilation (calculateRelativisticEffects (Num 10) (Num 30) (Num 20) (Num 120)) = Num ((1 / sqrt (9 / 10)) / (1 / sqrt (14 / 15)))"
  "potential (observer1 (calculateRelativisticEffects (Num 10) (Num 30) (Num 20) (Num 120))) = Num (1 / 3)"
  "potential (observer2 (calculateRelativisticEffects (Num 10) (Num 30) (Num 20) (Num 120))) = Num (1 / 2)"
  using effects_in_domain [of 30 20 10 120] by simp_all

lemma inv_sqrt_bounds:
  fixes x lo hi :: real
  assumes "0 < x" "0 < lo" "0 < hi" "lo\<^sup>2 * x \<le> 1" "1 \<le> hi\<^sup>2 * x"
  shows "lo \<le> 1 / sqrt x \<and> 1 / sqrt x \<le> hi"
proof -
  have sx: "0 < sqrt x" using assms(1) by simp
  have sq: "(sqrt x)\<^sup>2 = x" using assms(1) by simp
  have "(lo * sqrt x)\<^sup>2 = lo\<^sup>2 * x" by (simp only: power_mult_distrib sq)
  with assms(4) have "(lo * sqrt x)\<^sup>2 \<le> 1\<^sup>2" by simp
  then have a: "lo * sqrt x \<le> 1"
    by (rule power2_le_imp_le) simp
  have "(hi * sqrt x)\<^sup>2 = hi\<^sup>2 * x" by (simp only: power_mult_distrib sq)
  with assms(5) have "1\<^sup>2 \<le> (hi * sqrt x)\<^sup>2" by simp
  moreover have "0 \<le> hi * sqrt x" using assms(3) sx by simp
  ultimately have b: "1 \<le> hi * sqrt x"
    by (rule power2_le_imp_le)
  have "lo \<le> 1 / sqrt x"
    using a sx by (simp only: pos_le_divide_eq)
  moreover have "1 / sqrt x \<le> hi"
    using b sx by (simp only: pos_divide_le_eq)
  ultimately show ?thesis by (rule conjI)
qed

lemma td1_bounds: "(103505 / 100000 :: real) \<le> 1 / sqrt (14 / 15) \<and> 1 / sqrt (14 / 15) \<le> (103515 / 100000 :: real)"
  by (rule inv_sqrt_bounds) (simp_all add: power2_eq_square)

lemma td2_bounds: "(105405 / 100000 :: real) \<le> 1 / sqrt (9 / 10) \<and> 1 / sqrt (9 / 10) \<le> (105415 / 100000 :: real)"
  by (rule inv_sqrt_bounds) (simp_all add: power2_eq_square)

lemma rel_eq: "(1 / sqrt (9 / 10)) / (1 / sqrt (14 / 15)) = (sqrt (28 / 27) :: real)"
proof -
  have "(1 / sqrt (9 / 10)) / (1 / sqrt (14 / 15)) = sqrt (14 / 15) / sqrt (9 / 10 :: real)"
    by simp
  also have "\<dots> = sqrt ((14 / 15) / (9 / 10))"
    by (simp only: real_sqrt_divide)
  also have "\<dots> = sqrt (28 / 27)" by simp
  finally show ?thesis .
qed

lemma rel_bounds: "(101835 / 100000 :: real) \<le> sqrt (28 / 27) \<and> sqrt (28 / 27) \<le> (101845 / 100000 :: real)"
proof
  show "(101835 / 100000 :: real) \<le> sqrt (28 / 27)"
    by (rule real_le_rsqrt) (simp add: power2_eq_square)
  show "sqrt (28 / 27) \<le> (101845 / 100000 :: real)"
    by (rule real_le_lsqrt) (simp_all add: power2_eq_square)
qed

lemma closeTo_bounds:
  "lo \<le> v \<Longrightarrow> v \<le> hi \<Longrightarrow> c - e \<le> lo \<Longrightarrow> hi \<le> c + e \<Longrightarrow> closeTo (Num v) c e"
  by (simp add: abs_le_iff)

lemma not_closeTo_above: "lo \<le> v \<Longrightarrow> c + e < lo \<Longrightarrow> \<not> closeTo (Num v) c e"
  by (simp add: abs_le_iff)

lemma not_closeTo_below: "v \<le> hi \<Longrightarrow> hi < c - e \<Longrightarrow> \<not> closeTo (Num v) c e"
  by (simp add: abs_le_iff)

text \<open>
  The example of the specification, mass 10 and observers at radii 30 and 20: the time
  dilation of observer 1 is \<open>1 / sqrt (14 / 15)\<close>, above 1.035, so it is not 1.0339 to
  three decimal places; the relative time dilation is \<open>sqrt (28 / 27)\<close>, below 1.0185, so
  it is not 1.0195.
\<close>

theorem example_values_counterexample:
  "\<not> closeTo (timeDilation (observer1 (calculateRelativisticEffects (Num 10) (Num 30) (Num 20) (Num 120))))
        (10339 / 10000) (1 / 1000) \<and>
   \<not> closeTo (relativeTimeDilation (calculateRelativisticEffects (Num 10) (Num 30) (Num 20) (Num 120)))
        (10195 / 10000) (1 / 1000)"
proof
  show "\<not> closeTo (timeDilation (observer1 (calculateRelativisticEffects (Num 10) (Num 30) (Num 20) (Num 120))))
        (10339 / 10000) (1 / 1000)"
    unfolding example_effects
    by (rule not_closeTo_above [OF conjunct1 [OF td1_bounds]]) simp
  show "\<not> closeTo (relativeTimeDilation (calculateRelativisticEffects (Num 10) (Num 30) (Num 20) (Num 120)))
        (10195 / 10000) (1 / 1000)"
    unfolding example_effects rel_eq
    by (rule not_closeTo_below [OF conjunct2 [OF rel_bounds]]) simp
qed

text \<open>
  C2, as amended. For mass 10, observer 1 at radius 30 and observer 2 at radius 20,
  \<open>calculateRelativisticEffects\<close> returns the potentials 1/3 and 1/2, the time dilations
  1.0351 and 1.0541 and the relative time dilation 1.0184 (each to four decimal places);
  the relative time dilation is above 1, the case in which observer 2's clock is the
  slower one.
\<close>

theorem example_values:
  "potential (observer1 (calculateRelativisticEffects (Num 10) (Num 30) (Num 20) (Num 120))) = Num (1 / 3) \<and>
   potential (observer2 (calculateRelativisticEffects (Num 10) (Num 30) (Num 20) (Num 120))) = Num (1 / 2) \<and>
   closeTo (timeDilation (observer1 (calculateRelativisticEffects (Num 10) (Num 30) (Num 20) (Num 120))))
     (10351 / 10000) (5 / 100000) \<and>
   closeTo (timeDilation (observer2 (calculateRelativisticEffects (Num 10) (Num 30) (Num 20) (Num 120))))
     (10541 / 10000) (5 / 100000) \<and>
   closeTo (relativeTimeDilation (calculateRelativisticEffects (Num 10) (Num 30) (Num 20) (Num 120)))
     (10184 / 10000) (5 / 100000) \<and>
   js_gt (relativeTimeDilation (calculateRelativisticEffects (Num 10) (Num 30) (Num 20) (Num 120))) (Num 1)"
proof -
  have t1: "closeTo (Num (1 / sqrt (14 / 15))) (10351 / 10000) (5 / 100000)"
    by (rule closeTo_bounds [OF conjunct1 [OF td1_bounds] conjunct2 [OF td1_bounds]]) simp_all
  have t2: "closeTo (Num (1 / sqrt (9 / 10))) (10541 / 10000) (5 / 100000)"
    by (rule closeTo_bounds [OF conjunct1 [OF td2_bounds] conjunct2 [OF td2_bounds]]) simp_all
  have t3: "closeTo (Num (sqrt (28 / 27))) (10184 / 10000) (5 / 100000)"
    by (rule closeTo_bounds [OF conjunct1 [OF rel_bounds] conjunct2 [OF rel_bounds]]) simp_all
  have "(1::real) < sqrt (28 / 27)"
    using rel_bounds by linarith
  then have t4: "js_gt (Num (sqrt (28 / 27))) (Num 1)"
    by (simp only: js_gt_def js_lt.simps)
  show ?thesis
    unfolding example_effects rel_eq using t1 t2 t3 t4 by (simp only: simp_thms)
qed

text \<open>
  The redshift returned by \<open>calculateRelativisticEffects\<close> is the expression that
  \<open>redshift64\<close> evaluates with a rounding after each operation.
\<close>

lemma redshift_expression:
  "redshift (calculateRelativisticEffects mass observer1Position observer2Position observer2Angle) =
     js_sub
       (js_sqrt
          (js_div
             (js_sub (Num 1) (js_mul (js_mul (Num 2) (js_div mass observer2Position)) SCALE_FACTOR))
             (js_sub (Num 1) (js_mul (js_mul (Num 2) (js_div mass observer1Position)) SCALE_FACTOR))))
       (Num 1)"
  by (simp add: calculateRelativisticEffects_def Let_def)

section \<open>Properties of the horizons\<close>

lemma horizonRadius_Num:
  assumes "0 \<le> s" "s \<le> m"
  shows "horizonRadius (Num m) (Num s) = Num ((m + sqrt (m * m - s * s)) * (1 / 10))"
proof -
  have "s * s \<le> m * m" by (rule mult_mono) (use assms in simp_all)
  then have "\<not> m * m - s * s < 0" by simp
  then show ?thesis
    by (simp add: horizonRadius_def rPlus_def js_sub_def SCALE_FACTOR_def)
qed

lemma sqrt_9975_bounds: "(998749 / 100000 :: real) \<le> sqrt (399 / 4) \<and> sqrt (399 / 4) \<le> (99875 / 10000 :: real)"
proof
  show "(998749 / 100000 :: real) \<le> sqrt (399 / 4)"
    by (rule real_le_rsqrt) (simp add: power2_eq_square)
  show "sqrt (399 / 4) \<le> (99875 / 10000 :: real)"
    by (rule real_le_lsqrt) (simp_all add: power2_eq_square)
qed

lemma horizon_example: "horizonRadius (Num 10) (Num (1 / 2)) = Num ((10 + sqrt (399 / 4)) * (1 / 10))"
proof -
  have "horizonRadius (Num 10) (Num (1 / 2)) = Num ((10 + sqrt (10 * 10 - (1 / 2) * (1 / 2))) * (1 / 10))"
    by (rule horizonRadius_Num) simp_all
  also have "(10 * 10 - (1 / 2) * (1 / 2) :: real) = 399 / 4" by simp
  finally show ?thesis .
qed

text \<open>
  With mass 10 and spin 0.5 the drawn horizon radius is \<open>(10 + sqrt 99.75) * 0.1\<close>, at
  most 1.99875, so it is not 1.9994 to three decimal places. With a negative spin of
  larger magnitude than the mass (mass 1, spin -2) the mass is the larger of the two and
  the radius is \<open>NaN\<close>.
\<close>

theorem kerr_example_counterexample:
  "\<not> closeTo (horizonRadius (Num 10) (Num (1 / 2))) (19994 / 10000) (5 / 10000) \<and>
   horizonRadius (Num 1) (Num (- 2)) = NaN"
proof
  have "(10 + sqrt (399 / 4)) * (1 / 10) \<le> (199875 / 100000 :: real)"
    using sqrt_9975_bounds by simp
  then show "\<not> closeTo (horizonRadius (Num 10) (Num (1 / 2))) (19994 / 10000) (5 / 10000)"
    unfolding horizon_example by (rule not_closeTo_below) simp
  show "horizonRadius (Num 1) (Num (- 2)) = NaN"
    by (simp add: horizonRadius_def rPlus_def js_sub_def SCALE_FACTOR_def)
qed

text \<open>
  C8, as amended. For \<open>0 \<le> spin \<le> mass\<close> the drawn horizon radius is
  \<open>(mass + sqrt (mass\<^sup>2 - spin\<^sup>2)) * SCALE_FACTOR\<close>. Mass 10 and spin 0.5 give
  1.9987 (to four decimal places); in the extremal case mass = spin = 10 the outer radius
  is exactly 1, and so is the inner root times the scale factor.
\<close>

theorem kerr_horizon:
  "(0 \<le> s \<and> s \<le> m \<longrightarrow>
      horizonRadius (Num m) (Num s) = Num ((m + sqrt (m * m - s * s)) * (1 / 10))) \<and>
   closeTo (horizonRadius (Num 10) (Num (1 / 2))) (19987 / 10000) (5 / 100000) \<and>
   horizonRadius (Num 10) (Num 10) = Num 1 \<and>
   js_mul (rMinus (Num 10) (Num 10)) SCALE_FACTOR = Num 1"
proof -
  have lo: "(199865 / 100000 :: real) \<le> (10 + sqrt (399 / 4)) * (1 / 10)"
    using sqrt_9975_bounds by simp
  have hi: "(10 + sqrt (399 / 4)) * (1 / 10) \<le> (199875 / 100000 :: real)"
    using sqrt_9975_bounds by simp
  have a: "closeTo (horizonRadius (Num 10) (Num (1 / 2))) (19987 / 10000) (5 / 100000)"
    unfolding horizon_example by (rule closeTo_bounds [OF lo hi]) simp_all
  have b: "horizonRadius (Num 10) (Num 10) = Num 1"
    by (simp add: horizonRadius_def rPlus_def js_sub_def SCALE_FACTOR_def)
  have c: "js_mul (rMinus (Num 10) (Num 10)) SCALE_FACTOR = Num 1"
    by (simp add: rMinus_def js_sub_def SCALE_FACTOR_def)
  show ?thesis using horizonRadius_Num [of s m] a b c by blast
qed

theorem kerr_horizon_witness:
  "(0::real) \<le> 1 / 2 \<and> (1 / 2 :: real) \<le> 10 \<and>
   horizonRadius (Num 10) (Num (1 / 2)) = Num ((10 + sqrt (10 * 10 - (1 / 2) * (1 / 2))) * (1 / 10))"
  using kerr_horizon [of "1 / 2" 10] by simp

section \<open>Properties of the decaying orbit\<close>

lemma js_max_Num: "js_max (Num a) (Num b) = Num (max a b)"
  by (simp add: max_def)

lemma separation_Num:
  "separation (mergerState m (Num t)) = Num (max 5 (40 * exp (- t * (3 / 100))))"
  by (simp only: mergerState_def Let_def mergerOrbit.select_convs js_neg.simps js_mul.simps
        js_exp.simps js_max_Num)

lemma orbitAngle_Num:
  "orbitAngle (mergerState m (Num t)) =
     Num (t * (5 / 100 * (max 5 (40 * exp (- t * (3 / 100))) / 40) powr (- (3 / 2))))"
proof -
  define sp where "sp = max 5 (40 * exp (- t * (3 / 100)))"
  have pos: "0 < sp / 40" by (simp add: sp_def)
  have sep: "js_max (Num 5) (js_mul (Num 40) (js_exp (js_mul (js_neg (Num t)) (Num (3 / 100))))) = Num sp"
    by (simp only: js_neg.simps js_mul.simps js_exp.simps js_max_Num sp_def)
  have d: "js_div (Num sp) (Num 40) = Num (sp / 40)" by simp
  have pw: "js_pow (Num (sp / 40)) (Num (- (3 / 2))) = Num ((sp / 40) powr (- (3 / 2)))"
    using pos by simp
  show ?thesis
    unfolding sp_def [symmetric]
    by (simp only: mergerState_def Let_def mergerOrbit.select_convs sep d pw js_mul.simps)
qed

lemma sourceDistance_Num: "sourceDistance (Num t) = Num (max 2 (10 * exp (- t * (3 / 100))))"
  by (simp only: sourceDistance_def Let_def js_neg.simps js_mul.simps js_exp.simps js_max_Num)

lemma sourceAngle_Num: "sourceAngle (Num t) = Num (t * (5 / 100))"
  by (simp only: sourceAngle_def Let_def js_mul.simps)

lemma decay_mono:
  fixes t1 t2 c d0 :: real
  assumes "t1 \<le> t2" "0 \<le> d0"
  shows "max c (d0 * exp (- t2 * (3 / 100))) \<le> max c (d0 * exp (- t1 * (3 / 100)))"
proof -
  have "exp (- t2 * (3 / 100)) \<le> exp (- t1 * (3 / 100))"
    using assms(1) by simp
  then have "d0 * exp (- t2 * (3 / 100)) \<le> d0 * exp (- t1 * (3 / 100))"
    using assms(2) by (rule mult_left_mono)
  then show ?thesis by (rule max.mono [OF order_refl])
qed

text \<open>
  C6. The separation and the orbital angle of the merger, and the distance and the angle
  of the two wave sources, are given by closed forms in the elapsed time alone (neither
  the mass nor any stored state enters), so two evaluations at one time agree. The
  separation is \<open>max 5 (40 * exp (- 0.03 * t))\<close> and the source distance
  \<open>max 2 (10 * exp (- 0.03 * t))\<close>: neither is below its floor, and neither increases
  with time.
\<close>

theorem orbit_law:
  "separation (mergerState m (Num t)) = Num (max 5 (40 * exp (- t * (3 / 100)))) \<and>
   orbitAngle (mergerState m (Num t)) =
     Num (t * (5 / 100 * (max 5 (40 * exp (- t * (3 / 100))) / 40) powr (- (3 / 2)))) \<and>
   \<not> js_lt (separation (mergerState m (Num t))) (Num 5) \<and>
   (t1 \<le> t2 \<longrightarrow>
      \<not> js_lt (separation (mergerState m (Num t1))) (separation (mergerState m (Num t2)))) \<and>
   sourceDistance (Num t) = Num (max 2 (10 * exp (- t * (3 / 100)))) \<and>
   sourceAngle (Num t) = Num (t * (5 / 100)) \<and>
   \<not> js_lt (sourceDistance (Num t)) (Num 2) \<and>
   (t1 \<le> t2 \<longrightarrow> \<not> js_lt (sourceDistance (Num t1)) (sourceDistance (Num t2)))"
proof -
  have a: "t1 \<le> t2 \<longrightarrow>
      \<not> js_lt (separation (mergerState m (Num t1))) (separation (mergerState m (Num t2)))"
  proof
    assume "t1 \<le> t2"
    then have "max 5 (40 * exp (- t2 * (3 / 100))) \<le> max 5 (40 * exp (- t1 * (3 / 100)))"
      by (rule decay_mono) simp
    then have "\<not> max 5 (40 * exp (- t1 * (3 / 100))) < max 5 (40 * exp (- t2 * (3 / 100)))"
      by (simp only: not_less)
    then show "\<not> js_lt (separation (mergerState m (Num t1))) (separation (mergerState m (Num t2)))"
      by (simp only: separation_Num js_lt.simps simp_thms)
  qed
  have b: "t1 \<le> t2 \<longrightarrow> \<not> js_lt (sourceDistance (Num t1)) (sourceDistance (Num t2))"
  proof
    assume "t1 \<le> t2"
    then have "max 2 (10 * exp (- t2 * (3 / 100))) \<le> max 2 (10 * exp (- t1 * (3 / 100)))"
      by (rule decay_mono) simp
    then have "\<not> max 2 (10 * exp (- t1 * (3 / 100))) < max 2 (10 * exp (- t2 * (3 / 100)))"
      by (simp only: not_less)
    then show "\<not> js_lt (sourceDistance (Num t1)) (sourceDistance (Num t2))"
      by (simp only: sourceDistance_Num js_lt.simps simp_thms)
  qed
  have c: "\<not> js_lt (separation (mergerState m (Num t))) (Num 5)"
    by (simp add: separation_Num)
  have d: "\<not> js_lt (sourceDistance (Num t)) (Num 2)"
    by (simp add: sourceDistance_Num)
  show ?thesis
    using a b c d separation_Num [of m t] orbitAngle_Num [of m t] sourceDistance_Num [of t]
      sourceAngle_Num [of t]
    by blast
qed

theorem orbit_law_witness:
  "(0::real) \<le> 10 \<and>
   \<not> js_lt (separation (mergerState (Num 10) (Num 0))) (separation (mergerState (Num 10) (Num 10))) \<and>
   \<not> js_lt (sourceDistance (Num 0)) (sourceDistance (Num 10)) \<and>
   separation (mergerState (Num 10) (Num 0)) = Num 40 \<and>
   sourceDistance (Num 0) = Num 10"
proof -
  have h: "(0::real) \<le> 10" by simp
  have s0: "separation (mergerState (Num 10) (Num 0)) = Num 40"
    using orbit_law [of "Num 10" 0 0 10] by simp
  have d0: "sourceDistance (Num 0) = Num 10"
    using orbit_law [of "Num 10" 0 0 10] by simp
  from orbit_law [of "Num 10" 0 0 10] h s0 d0 show ?thesis by blast
qed

section \<open>Properties of the light paths\<close>

lemma traceSteps_stop:
  assumes "sqrt ((x + vx) * (x + vx) + (y + vy) * (y + vy)) < 5 / 2"
  shows "traceSteps (Num m) (Num rot) (Suc k) (Num x) (Num y) (Num vx) (Num vy) = []"
proof -
  have nn: "\<not> (x + vx) * (x + vx) + (y + vy) * (y + vy) < 0"
    by (simp add: not_less)
  show ?thesis
    using assms nn by (simp add: Let_def)
qed

lemma traceSteps_step:
  fixes m rot x y vx vy :: real
  defines "x' \<equiv> x + vx" and "y' \<equiv> y + vy"
  defines "r \<equiv> sqrt (x' * x' + y' * y')"
  defines "ff \<equiv> m / (r * r * r)"
  defines "rf \<equiv> rot * m / (r * r * r) * (2 / 10)"
  defines "ux \<equiv> (if 0 < rot then vx - x' * ff + (- y') * rf else vx - x' * ff)"
  defines "uy \<equiv> (if 0 < rot then vy - y' * ff + x' * rf else vy - y' * ff)"
  defines "vMag \<equiv> sqrt (ux * ux + uy * uy)"
  assumes far: "\<not> r < 5 / 2" and mag: "vMag \<noteq> 0"
  shows "traceSteps (Num m) (Num rot) (Suc k) (Num x) (Num y) (Num vx) (Num vy) =
           \<lparr>gx = Num x', gy = Num y', gz = Num (- m / r)\<rparr> #
           traceSteps (Num m) (Num rot) k (Num x') (Num y')
             (Num (ux / vMag * (1 / 2))) (Num (uy / vMag * (1 / 2)))"
proof -
  have rpos: "0 < r" using far by simp
  then have r3: "r * r * r \<noteq> 0" by simp
  have X: "js_add (Num x) (Num vx) = Num x'" and Y: "js_add (Num y) (Num vy) = Num y'"
    by (simp_all add: x'_def y'_def)
  have "\<not> x' * x' + y' * y' < 0" by (simp add: not_less)
  then have R: "js_sqrt (js_add (js_mul (Num x') (Num x')) (js_mul (Num y') (Num y'))) = Num r"
    by (simp add: r_def)
  have far': "js_lt (Num r) (Num (5 / 2)) = False" using far by simp
  have FF: "js_div (Num m) (js_mul (js_mul (Num r) (Num r)) (Num r)) = Num ff"
    using r3 by (simp add: ff_def)
  have RF: "js_mul (js_div (js_mul (Num rot) (Num m)) (js_mul (js_mul (Num r) (Num r)) (Num r))) (Num (2 / 10)) = Num rf"
    using r3 by (simp add: rf_def)
  have V1: "js_sub (Num vx) (js_mul (Num x') (Num ff)) = Num (vx - x' * ff)"
    "js_sub (Num vy) (js_mul (Num y') (Num ff)) = Num (vy - y' * ff)"
    by (simp_all add: js_sub_def)
  have UX: "(if js_gt (Num rot) (Num 0) then js_add (Num (vx - x' * ff)) (js_mul (js_neg (Num y')) (Num rf))
             else Num (vx - x' * ff)) = Num ux"
    by (simp add: ux_def js_gt_def)
  have UY: "(if js_gt (Num rot) (Num 0) then js_add (Num (vy - y' * ff)) (js_mul (Num x') (Num rf))
             else Num (vy - y' * ff)) = Num uy"
    by (simp add: uy_def js_gt_def)
  have "\<not> ux * ux + uy * uy < 0" by (simp add: not_less)
  then have VM: "js_sqrt (js_add (js_mul (Num ux) (Num ux)) (js_mul (Num uy) (Num uy))) = Num vMag"
    by (simp add: vMag_def)
  have V3: "js_mul (js_div (Num ux) (Num vMag)) (Num (1 / 2)) = Num (ux / vMag * (1 / 2))"
    "js_mul (js_div (Num uy) (Num vMag)) (Num (1 / 2)) = Num (uy / vMag * (1 / 2))"
    using mag by simp_all
  have Z: "js_div (js_neg (Num m)) (Num r) = Num (- m / r)"
    using rpos by simp
  show ?thesis
    by (simp only: traceSteps.simps Let_def X Y R far' if_False FF RF V1 UX UY VM V3 Z)
qed


lemma sum_squares_pos: "(a::real) \<noteq> 0 \<or> b \<noteq> 0 \<Longrightarrow> 0 < sqrt (a * a + b * b)"
proof -
  assume "a \<noteq> 0 \<or> b \<noteq> 0"
  then have "a * a + b * b \<noteq> 0" by (simp add: sum_squares_eq_zero_iff)
  moreover have "0 \<le> a * a + b * b" by simp
  ultimately have "0 < a * a + b * b" by linarith
  then show ?thesis by simp
qed

lemma rayInvariant_step:
  fixes m rot x y vx vy :: real
  defines "x' \<equiv> x + vx" and "y' \<equiv> y + vy"
  defines "r \<equiv> sqrt (x' * x' + y' * y')"
  defines "ff \<equiv> m / (r * r * r)"
  defines "rf \<equiv> rot * m / (r * r * r) * (2 / 10)"
  defines "ux \<equiv> (if 0 < rot then vx - x' * ff + (- y') * rf else vx - x' * ff)"
  defines "uy \<equiv> (if 0 < rot then vy - y' * ff + x' * rf else vy - y' * ff)"
  defines "vMag \<equiv> sqrt (ux * ux + uy * uy)"
  assumes m: "0 < m" and inv: "rayInvariant rot x y vx vy" and far: "\<not> r < 5 / 2"
  shows "vMag \<noteq> 0 \<and> rayInvariant rot x' y' (ux / vMag * (1 / 2)) (uy / vMag * (1 / 2))"
proof -
  have rpos: "0 < r" using far by simp
  have rr: "r * r = x' * x' + y' * y'"
    unfolding r_def by simp
  have "5 / 2 * (5 / 2) \<le> r * r"
    by (rule mult_mono) (use far in simp_all)
  then have far2: "25 / 4 \<le> x' * x' + y' * y'"
    unfolding rr by simp
  have ffpos: "0 < ff"
    unfolding ff_def using m rpos by simp
  have cross': "x' * vy - y' * vx = x * vy - y * vx"
    by (simp add: x'_def y'_def algebra_simps)
  show ?thesis
  proof (cases "0 < rot")
    case True
    have ux: "ux = vx - x' * ff + (- y') * rf" and uy: "uy = vy - y' * ff + x' * rf"
      using True by (simp_all add: ux_def uy_def)
    have rfpos: "0 < rf"
      unfolding rf_def using True m rpos by simp
    have L: "0 \<le> x * vy - y * vx"
      using inv True by (simp add: rayInvariant_def)
    have "x' * uy - y' * ux = (x' * vy - y' * vx) + rf * (x' * x' + y' * y')"
      unfolding ux uy by (simp add: algebra_simps)
    moreover have "0 < rf * (x' * x' + y' * y')"
      using rfpos far2 by simp
    ultimately have L2: "0 < x' * uy - y' * ux"
      using L cross' by linarith
    then have "ux \<noteq> 0 \<or> uy \<noteq> 0" by auto
    then have vpos: "0 < vMag"
      unfolding vMag_def by (rule sum_squares_pos)
    have "x' * (uy / vMag * (1 / 2)) - y' * (ux / vMag * (1 / 2)) = (x' * uy - y' * ux) / vMag * (1 / 2)"
      by (simp add: algebra_simps diff_divide_distrib)
    moreover have "0 \<le> (x' * uy - y' * ux) / vMag * (1 / 2)"
      using L2 vpos by simp
    ultimately have "0 \<le> x' * (uy / vMag * (1 / 2)) - y' * (ux / vMag * (1 / 2))"
      by simp
    then show ?thesis
      using vpos True by (simp add: rayInvariant_def)
  next
    case False
    have ux: "ux = vx - x' * ff" and uy: "uy = vy - y' * ff"
      using False by (simp_all add: ux_def uy_def)
    from inv False have L: "x * vy - y * vx = 0" and D: "x * vx + y * vy < 0"
      and V: "vx * vx + vy * vy = 1 / 4" and Rr: "25 / 4 \<le> x * x + y * y"
      by (simp_all add: rayInvariant_def)
    have lagrange: "(x * vx + y * vy)\<^sup>2 + (x * vy - y * vx)\<^sup>2 = (x * x + y * y) * (vx * vx + vy * vy)"
      by (simp add: power2_eq_square algebra_simps)
    have "(x * vx + y * vy)\<^sup>2 = (x * x + y * y) * (1 / 4)"
      using lagrange unfolding L V by simp
    then have "(5 / 4)\<^sup>2 \<le> (x * vx + y * vy)\<^sup>2"
      using Rr by (simp add: power2_eq_square)
    then have "\<bar>5 / 4 :: real\<bar> \<le> \<bar>x * vx + y * vy\<bar>"
      by (simp only: abs_le_square_iff)
    then have D54: "x * vx + y * vy \<le> - (5 / 4)"
      using D by simp
    have "x' * vx + y' * vy = (x * vx + y * vy) + (vx * vx + vy * vy)"
      by (simp add: x'_def y'_def algebra_simps)
    then have D': "x' * vx + y' * vy \<le> - 1"
      using D54 V by simp
    have "x' * ux + y' * uy = (x' * vx + y' * vy) - ff * (x' * x' + y' * y')"
      unfolding ux uy by (simp add: algebra_simps)
    moreover have "0 < ff * (x' * x' + y' * y')"
      using ffpos far2 by simp
    ultimately have D2: "x' * ux + y' * uy < 0"
      using D' by linarith
    then have "ux \<noteq> 0 \<or> uy \<noteq> 0" by auto
    then have vpos: "0 < vMag"
      unfolding vMag_def by (rule sum_squares_pos)
    have vv: "vMag * vMag = ux * ux + uy * uy"
      unfolding vMag_def by simp
    have "x' * uy - y' * ux = x' * vy - y' * vx"
      unfolding ux uy by (simp add: algebra_simps)
    then have L2: "x' * uy - y' * ux = 0"
      using cross' L by simp
    have "x' * (uy / vMag * (1 / 2)) - y' * (ux / vMag * (1 / 2)) = (x' * uy - y' * ux) / vMag * (1 / 2)"
      by (simp add: algebra_simps diff_divide_distrib)
    then have n1: "x' * (uy / vMag * (1 / 2)) - y' * (ux / vMag * (1 / 2)) = 0"
      unfolding L2 by simp
    have "x' * (ux / vMag * (1 / 2)) + y' * (uy / vMag * (1 / 2)) = (x' * ux + y' * uy) / vMag * (1 / 2)"
      by (simp add: algebra_simps add_divide_distrib)
    moreover have "(x' * ux + y' * uy) / vMag * (1 / 2) < 0"
      using D2 vpos by (simp add: divide_neg_pos)
    ultimately have n2: "x' * (ux / vMag * (1 / 2)) + y' * (uy / vMag * (1 / 2)) < 0"
      by simp
    have "ux / vMag * (1 / 2) * (ux / vMag * (1 / 2)) + uy / vMag * (1 / 2) * (uy / vMag * (1 / 2))
          = (ux * ux + uy * uy) / (vMag * vMag) * (1 / 4)"
      by (simp add: add_divide_distrib)
    also have "\<dots> = 1 / 4"
      unfolding vv [symmetric] using vpos by simp
    finally have n3: "ux / vMag * (1 / 2) * (ux / vMag * (1 / 2)) + uy / vMag * (1 / 2) * (uy / vMag * (1 / 2)) = 1 / 4" .
    show ?thesis
      using vpos False n1 n2 n3 far2 by (simp add: rayInvariant_def)
  qed
qed


lemma traceSteps_safe:
  assumes "0 < m"
  shows "rayInvariant rot x y vx vy \<Longrightarrow>
         list_all (\<lambda>p. sampleFinite p \<and> \<not> js_lt (sampleRadius p) (Num (5 / 2)))
           (traceSteps (Num m) (Num rot) k (Num x) (Num y) (Num vx) (Num vy))"
proof (induction k arbitrary: x y vx vy)
  case 0
  show ?case by simp
next
  case (Suc k)
  define x' where "x' = x + vx"
  define y' where "y' = y + vy"
  define r where "r = sqrt (x' * x' + y' * y')"
  show ?case
  proof (cases "r < 5 / 2")
    case True
    then have "traceSteps (Num m) (Num rot) (Suc k) (Num x) (Num y) (Num vx) (Num vy) = []"
      unfolding r_def x'_def y'_def by (rule traceSteps_stop)
    then show ?thesis by simp
  next
    case False
    note far = False [unfolded r_def x'_def y'_def]
    note st = rayInvariant_step [OF assms Suc.prems far]
    note eq = traceSteps_step [OF far conjunct1 [OF st], where k = k]
    have "\<not> x' * x' + y' * y' < 0" by (simp add: not_less)
    then have rad: "sampleRadius \<lparr>gx = Num x', gy = Num y', gz = Num (- m / r)\<rparr> = Num r"
      by (simp add: sampleRadius_def r_def)
    have hd: "sampleFinite \<lparr>gx = Num x', gy = Num y', gz = Num (- m / r)\<rparr> \<and>
              \<not> js_lt (sampleRadius \<lparr>gx = Num x', gy = Num y', gz = Num (- m / r)\<rparr>) (Num (5 / 2))"
      unfolding rad using False by (simp add: sampleFinite_def)
    show ?thesis
      unfolding eq using hd [unfolded r_def x'_def y'_def] Suc.IH [OF conjunct2 [OF st]]
      by simp
  qed
qed

lemma circle_point:
  fixes d c s :: real
  assumes "c * c + s * s = 1"
  shows "d * c * (d * c) + d * s * (d * s) = d * d"
proof -
  have "d * c * (d * c) + d * s * (d * s) = d * d * (c * c + s * s)"
    by (simp add: algebra_simps)
  then show ?thesis unfolding assms by simp
qed

lemma start_invariant:
  assumes "5 / 2 \<le> d"
  shows "rayInvariant rot (d * cos t) (d * sin t) (- cos t * (1 / 2)) (- sin t * (1 / 2))"
proof -
  define c where "c = cos t"
  define s where "s = sin t"
  have e: "c * c + s * s = 1"
    using sin_cos_squared_add3 [of t] by (simp add: c_def s_def)
  have a: "d * c * (- s * (1 / 2)) - d * s * (- c * (1 / 2)) = 0"
    by simp
  have "d * c * (- c * (1 / 2)) + d * s * (- s * (1 / 2)) = - (d / 2) * (c * c + s * s)"
    by (simp add: algebra_simps)
  then have b: "d * c * (- c * (1 / 2)) + d * s * (- s * (1 / 2)) < 0"
    unfolding e using assms by simp
  have "- c * (1 / 2) * (- c * (1 / 2)) + - s * (1 / 2) * (- s * (1 / 2)) = (c * c + s * s) * (1 / 4)"
    by (simp add: algebra_simps)
  then have v: "- c * (1 / 2) * (- c * (1 / 2)) + - s * (1 / 2) * (- s * (1 / 2)) = 1 / 4"
    unfolding e by simp
  have "5 / 2 * (5 / 2) \<le> d * d"
    by (rule mult_mono) (use assms in simp_all)
  then have f: "25 / 4 \<le> d * c * (d * c) + d * s * (d * s)"
    unfolding circle_point [OF e] by simp
  have "rayInvariant rot (d * c) (d * s) (- c * (1 / 2)) (- s * (1 / 2))"
    unfolding rayInvariant_def using a b v f by simp
  then show ?thesis unfolding c_def s_def .
qed

lemma lightPath_Num:
  fixes d m rot :: real and i n :: nat
  defines "t \<equiv> real i * 2 * pi / real n"
  assumes "0 < d" "i < n"
  shows "lightPath (Num d) (Num m) (Num rot) n i =
           \<lparr>gx = Num (d * cos t), gy = Num (d * sin t), gz = Num (- m / d)\<rparr> #
           traceSteps (Num m) (Num rot) 100 (Num (d * cos t)) (Num (d * sin t))
             (Num (- cos t * (1 / 2))) (Num (- sin t * (1 / 2)))"
proof -
  have n: "real n \<noteq> 0" using assms(3) by simp
  have A: "js_div (js_mul (js_mul (Num (real i)) (Num 2)) js_PI) (Num (real n)) = Num t"
    using n by (simp add: js_PI_def t_def)
  have e: "cos t * cos t + sin t * sin t = 1"
    using sin_cos_squared_add3 [of t] by simp
  note dd = circle_point [OF e, of d]
  have X: "js_mul (Num d) (js_cos (Num t)) = Num (d * cos t)"
    and Y: "js_mul (Num d) (js_sin (Num t)) = Num (d * sin t)"
    by simp_all
  have R: "js_sqrt (js_add (js_mul (Num (d * cos t)) (Num (d * cos t)))
                           (js_mul (Num (d * sin t)) (Num (d * sin t)))) = Num d"
    using assms(2) by (simp only: js_mul.simps js_add.simps dd) simp
  have Z: "js_div (js_neg (Num m)) (Num d) = Num (- m / d)"
    using assms(2) by simp
  have V: "js_mul (js_neg (js_cos (Num t))) (Num (1 / 2)) = Num (- cos t * (1 / 2))"
    "js_mul (js_neg (js_sin (Num t))) (Num (1 / 2)) = Num (- sin t * (1 / 2))"
    by simp_all
  show ?thesis
    by (simp only: lightPath_def Let_def A X Y R Z V)
qed


lemma lightPath_safe:
  assumes "i < n"
  shows "list_all sampleFinite (lightPath (Num 30) (Num 10) (Num rot) n i) \<and>
         list_all (\<lambda>p. \<not> js_lt (sampleRadius p) (Num (5 / 2)))
           (tl (lightPath (Num 30) (Num 10) (Num rot) n i))"
proof -
  define t where "t = real i * 2 * pi / real n"
  have eq: "lightPath (Num 30) (Num 10) (Num rot) n i =
           \<lparr>gx = Num (30 * cos t), gy = Num (30 * sin t), gz = Num (- 10 / 30)\<rparr> #
           traceSteps (Num 10) (Num rot) 100 (Num (30 * cos t)) (Num (30 * sin t))
             (Num (- cos t * (1 / 2))) (Num (- sin t * (1 / 2)))"
    unfolding t_def by (rule lightPath_Num) (use assms in simp_all)
  have inv: "rayInvariant rot (30 * cos t) (30 * sin t) (- cos t * (1 / 2)) (- sin t * (1 / 2))"
    by (rule start_invariant) simp
  have tr: "list_all (\<lambda>p. sampleFinite p \<and> \<not> js_lt (sampleRadius p) (Num (5 / 2)))
      (traceSteps (Num 10) (Num rot) 100 (Num (30 * cos t)) (Num (30 * sin t))
             (Num (- cos t * (1 / 2))) (Num (- sin t * (1 / 2))))"
    by (rule traceSteps_safe [OF _ inv]) simp
  have st: "sampleFinite \<lparr>gx = Num (30 * cos t), gy = Num (30 * sin t), gz = Num (- 10 / 30)\<rparr>"
    by (simp add: sampleFinite_def)
  show ?thesis
    unfolding eq using tr st by (simp add: list_all_iff)
qed

text \<open>
  C7. Every light path traced from source radius 30 with mass 10, for any finite rotation
  and any number of paths: each sample has finite coordinates (none is \<open>NaN\<close>), and no
  sample after the starting point has a radius below 2.5. The loop ends the path at the
  first step whose radius is below 2.5, whatever the state.
\<close>

theorem light_paths_safe:
  "(\<forall>path \<in> set (calculateLightPaths (Num 30) (Num 10) (Num rot) n).
      (\<forall>p \<in> set path. sampleFinite p) \<and>
      (\<forall>p \<in> set (tl path). \<not> js_lt (sampleRadius p) (Num (5 / 2)))) \<and>
   (js_lt (js_sqrt (js_add (js_mul (js_add x vx) (js_add x vx)) (js_mul (js_add y vy) (js_add y vy))))
       (Num (5 / 2)) \<longrightarrow>
      traceSteps mass rotation (Suc k) x y vx vy = [])"
proof
  show "\<forall>path \<in> set (calculateLightPaths (Num 30) (Num 10) (Num rot) n).
      (\<forall>p \<in> set path. sampleFinite p) \<and>
      (\<forall>p \<in> set (tl path). \<not> js_lt (sampleRadius p) (Num (5 / 2)))"
  proof
    fix path
    assume "path \<in> set (calculateLightPaths (Num 30) (Num 10) (Num rot) n)"
    then obtain i where i: "i < n" and p: "path = lightPath (Num 30) (Num 10) (Num rot) n i"
      by (auto simp: calculateLightPaths_def)
    show "(\<forall>p \<in> set path. sampleFinite p) \<and>
      (\<forall>p \<in> set (tl path). \<not> js_lt (sampleRadius p) (Num (5 / 2)))"
      unfolding p using lightPath_safe [OF i, of rot] by (simp only: list_all_iff)
  qed
  show "js_lt (js_sqrt (js_add (js_mul (js_add x vx) (js_add x vx)) (js_mul (js_add y vy) (js_add y vy))))
       (Num (5 / 2)) \<longrightarrow>
      traceSteps mass rotation (Suc k) x y vx vy = []"
    by (simp add: Let_def)
qed

theorem light_paths_safe_witness:
  "lightPath (Num 30) (Num 10) (Num 0) 1 0 \<in> set (calculateLightPaths (Num 30) (Num 10) (Num 0) 1) \<and>
   hd (lightPath (Num 30) (Num 10) (Num 0) 1 0) = \<lparr>gx = Num 30, gy = Num 0, gz = Num (- (1 / 3))\<rparr> \<and>
   sampleFinite (hd (lightPath (Num 30) (Num 10) (Num 0) 1 0)) \<and>
   tl (lightPath (Num 30) (Num 10) (Num 0) 1 0) \<noteq> [] \<and>
   \<not> js_lt (sampleRadius (hd (tl (lightPath (Num 30) (Num 10) (Num 0) 1 0)))) (Num (5 / 2))"
proof -
  have mem: "lightPath (Num 30) (Num 10) (Num 0) 1 0 \<in> set (calculateLightPaths (Num 30) (Num 10) (Num 0) 1)"
    by (simp add: calculateLightPaths_def)
  have P: "lightPath (Num 30) (Num 10) (Num 0) 1 0 =
      \<lparr>gx = Num 30, gy = Num 0, gz = Num (- (1 / 3))\<rparr> #
      traceSteps (Num 10) (Num 0) (Suc 99) (Num 30) (Num 0) (Num (- (1 / 2))) (Num 0)"
    using lightPath_Num [of 30 0 1 10 0] by simp
  have "(5 / 2 :: real) \<le> sqrt ((30 + - (1 / 2)) * (30 + - (1 / 2)) + (0 + 0) * (0 + 0))"
    by (rule real_le_rsqrt) (simp add: power2_eq_square)
  then have far: "\<not> sqrt ((30 + - (1 / 2)) * (30 + - (1 / 2)) + (0 + 0) * (0 + 0)) < (5 / 2 :: real)"
    by (simp only: not_less)
  have inv: "rayInvariant 0 30 0 (- (1 / 2)) 0"
    by (simp add: rayInvariant_def)
  note st = rayInvariant_step [OF _ inv far, of 10]
  have ne: "traceSteps (Num 10) (Num 0) (Suc 99) (Num 30) (Num 0) (Num (- (1 / 2))) (Num 0) \<noteq> []"
    using traceSteps_step [OF far conjunct1 [OF st], where k = 99] by simp
  have tlne: "tl (lightPath (Num 30) (Num 10) (Num 0) 1 0) \<noteq> []"
    unfolding P using ne by simp
  then have hdtl: "hd (tl (lightPath (Num 30) (Num 10) (Num 0) 1 0)) \<in> set (tl (lightPath (Num 30) (Num 10) (Num 0) 1 0))"
    by simp
  have hdmem: "hd (lightPath (Num 30) (Num 10) (Num 0) 1 0) \<in> set (lightPath (Num 30) (Num 10) (Num 0) 1 0)"
    unfolding P by simp
  have hdeq: "hd (lightPath (Num 30) (Num 10) (Num 0) 1 0) = \<lparr>gx = Num 30, gy = Num 0, gz = Num (- (1 / 3))\<rparr>"
    unfolding P by simp
  from light_paths_safe [of 0 1] mem hdmem hdtl hdeq tlne show ?thesis
    by blast
qed

section \<open>Properties of the fact generator\<close>

declare natDigits.simps [simp del]

lemma natDigits_no_minus: "CHR ''-'' \<notin> set (natDigits n)"
proof (induction n rule: natDigits.induct)
  case (1 n)
  have d: "CHR ''-'' \<noteq> ''0123456789'' ! k" if "k < 10" for k
  proof -
    from that have "k \<in> {0, 1, 2, 3, 4, 5, 6, 7, 8, 9}" by auto
    then show ?thesis by auto
  qed
  show ?case
  proof (cases "n < 10")
    case True
    then show ?thesis
      using d [of n] by (subst natDigits.simps) simp
  next
    case False
    then show ?thesis
      using 1 d [of "n mod 10"] by (subst natDigits.simps) simp
  qed
qed

lemma fixedText_no_minus: "CHR ''-'' \<notin> set (fixedText n f)"
  by (simp add: fixedText_def natDigits_no_minus)

lemma shortDecimal_no_minus: "CHR ''-'' \<notin> set (shortDecimal k)"
proof -
  have "set (rev (dropWhile (\<lambda>c. c = CHR ''0'') (rev xs))) \<subseteq> set xs" for xs :: string
    using set_dropWhileD [of _ "\<lambda>c. c = CHR ''0''" "rev xs"] by auto
  then have "CHR ''-'' \<notin> set (rev (dropWhile (\<lambda>c. c = CHR ''0'')
           (rev (replicate (4 - length (natDigits (k mod 10 ^ 4))) (CHR ''0'') @
                 natDigits (k mod 10 ^ 4)))))"
    using natDigits_no_minus [of "k mod 10 ^ 4"] by fastforce
  then show ?thesis
    by (simp add: shortDecimal_def Let_def natDigits_no_minus)
qed

lemma toFixed_no_minus:
  assumes H: "\<forall>r. 10 ^ 21 \<le> r \<longrightarrow> CHR ''-'' \<notin> set (sci r)"
    and nn: "\<not> js_lt x (Num 0)"
  shows "CHR ''-'' \<notin> set (textOf (toFixed sci x f))"
proof (cases x)
  case (Num a)
  with nn have a: "\<not> a < 0" by simp
  show ?thesis
  proof (cases "10 ^ 21 \<le> \<bar>a\<bar>")
    case True
    with H have "CHR ''-'' \<notin> set (sci \<bar>a\<bar>)" by blast
    then show ?thesis using Num a True by simp
  next
    case False
    then show ?thesis using Num a by (simp add: Let_def fixedText_no_minus)
  qed
next
  case NaN
  then show ?thesis by simp
next
  case PInf
  then show ?thesis by simp
next
  case NInf
  with nn show ?thesis by simp
qed

lemma numberOf_toFixed:
  "numberOf (toFixed sci x f) = NaN \<or> numberOf (toFixed sci x f) = PInf \<or>
   numberOf (toFixed sci x f) = NInf \<or>
   (\<exists>v. numberOf (toFixed sci x f) = Num v \<and> 10 ^ 21 \<le> \<bar>v\<bar>) \<or>
   (\<exists>n. numberOf (toFixed sci x f) = Num (real n / 10 ^ f) \<or>
        numberOf (toFixed sci x f) = Num (- (real n / 10 ^ f)))"
proof (cases x)
  case (Num a)
  show ?thesis
  proof (cases "10 ^ 21 \<le> \<bar>a\<bar>")
    case True
    then show ?thesis using Num by simp
  next
    case False
    define n where "n = nat \<lfloor>\<bar>a\<bar> * 10 ^ f + 1 / 2\<rfloor>"
    have eq: "numberOf (toFixed sci x f) = Num ((if a < 0 then - 1 else 1) * (real n / 10 ^ f))"
      unfolding Num n_def using False by (simp only: toFixed.simps if_False Let_def numericString.select_convs)
    show ?thesis
    proof (cases "a < 0")
      case True
      with eq have "numberOf (toFixed sci x f) = Num (- (real n / 10 ^ f))" by simp
      then show ?thesis by blast
    next
      case False
      with eq have "numberOf (toFixed sci x f) = Num (real n / 10 ^ f)" by simp
      then show ?thesis by blast
    qed
  qed
qed simp_all

lemma abs_text_no_minus:
  assumes H: "\<forall>r. 10 ^ 21 \<le> r \<longrightarrow> CHR ''-'' \<notin> set (sci r)"
  shows "CHR ''-'' \<notin> set (jsToString sci (js_abs (numberOf (toFixed sci x 4))))"
proof -
  have big: "CHR ''-'' \<notin> set (jsToString sci (Num v))" if "10 ^ 21 \<le> v" for v :: real
  proof -
    from that have "0 < v" by (simp add: less_le_trans [of 0 "10 ^ 21" v])
    moreover from H that have "CHR ''-'' \<notin> set (sci v)" by blast
    ultimately show ?thesis using that by simp
  qed
  have small: "CHR ''-'' \<notin> set (jsToString sci (Num (real n / 10 ^ 4)))" for n :: nat
  proof (cases "n = 0")
    case True
    then show ?thesis by simp
  next
    case False
    define v :: real where "v = real n / 10 ^ 4"
    have pos: "0 < v" using False by (simp add: v_def)
    have int: "v * 10 ^ 4 = real n" by (simp add: v_def)
    show ?thesis
    proof (cases "v < 10 ^ 21")
      case True
      have "1 \<le> real n" using False by simp
      then have "1 / 10 ^ 6 \<le> v" unfolding v_def by (simp add: field_simps)
      then have "jsToString sci (Num v) = shortDecimal n"
        using pos True int by simp
      then show ?thesis
        unfolding v_def by (simp only: shortDecimal_no_minus not_False_eq_True)
    next
      case False
      then have "10 ^ 21 \<le> v" by simp
      then show ?thesis unfolding v_def [symmetric] by (rule big)
    qed
  qed
  from numberOf_toFixed [of sci x 4] consider
      "numberOf (toFixed sci x 4) = NaN" | "numberOf (toFixed sci x 4) = PInf"
    | "numberOf (toFixed sci x 4) = NInf"
    | v where "numberOf (toFixed sci x 4) = Num v" "10 ^ 21 \<le> \<bar>v\<bar>"
    | n where "numberOf (toFixed sci x 4) = Num (real n / 10 ^ 4)"
    | n where "numberOf (toFixed sci x 4) = Num (- (real n / 10 ^ 4))"
    by blast
  then show ?thesis
  proof cases
    case 1 then show ?thesis by simp
  next
    case 2 then show ?thesis by simp
  next
    case 3 then show ?thesis by simp
  next
    case (4 v)
    then show ?thesis using big [of "\<bar>v\<bar>"] by simp
  next
    case (5 n)
    have "\<bar>real n / 10 ^ 4\<bar> = real n / 10 ^ 4" by simp
    then show ?thesis using 5 small [of n] by (simp only: js_abs.simps simp_thms)
  next
    case (6 n)
    have "\<bar>- (real n / 10 ^ 4)\<bar> = real n / 10 ^ 4" by simp
    then show ?thesis using 6 small [of n] by (simp only: js_abs.simps simp_thms)
  qed
qed


lemma js_sqrt_nonneg: "\<not> js_lt (js_mul (js_sqrt x) (Num 100)) (Num 0)"
  by (cases x) (simp_all add: signedInf_def)

text \<open>
  C9. No minus sign appears in the time-dilation sentence or in the redshift sentence of
  \<open>generateFacts\<close>, for any effects record. The sentence names observer 2 as the slower
  (redshifted) one exactly when the relative time dilation exceeds 1 (the redshift
  exceeds 0); otherwise it names observer 1 and prints the absolute value of the
  rounded percentage. For the effects that \<open>calculateRelativisticEffects\<close> returns, the two
  escape-velocity percentages carry no minus sign either. The exponent notation that
  JavaScript uses from \<open>10 ^ 21\<close> on has a positive exponent: this is the hypothesis on
  \<open>sci\<close>.
\<close>

theorem facts_no_negative_percentage:
  assumes H: "\<forall>r. 10 ^ 21 \<le> r \<longrightarrow> CHR ''-'' \<notin> set (sci r)"
  shows "CHR ''-'' \<notin> set (timeDilationFact (generateFacts sci mass e)) \<and>
     CHR ''-'' \<notin> set (redshiftFact (generateFacts sci mass e)) \<and>
     take 10 (timeDilationFact (generateFacts sci mass e)) =
       (if js_gt (relativeTimeDilation e) (Num 1) then ''Observer 2'' else ''Observer 1'') \<and>
     take 21 (redshiftFact (generateFacts sci mass e)) =
       (if js_gt (redshift e) (Num 0) then ''Light from Observer 2'' else ''Light from Observer 1'') \<and>
     (\<not> js_gt (relativeTimeDilation e) (Num 1) \<longrightarrow>
        timeDilationFact (generateFacts sci mass e) =
          ''Observer 1 experiences time '' @
          jsToString sci (js_abs (numberOf
            (toFixed sci (js_mul (js_sub (relativeTimeDilation e) (Num 1)) (Num 100)) 4))) @
          ''% slower than Observer 2 due to being deeper in the gravitational well.'') \<and>
     (\<not> js_gt (redshift e) (Num 0) \<longrightarrow>
        redshiftFact (generateFacts sci mass e) =
          ''Light from Observer 1 appears redshifted by '' @
          jsToString sci (js_abs (numberOf (toFixed sci (js_mul (redshift e) (Num 100)) 4))) @
          ''% to Observer 2.'') \<and>
     CHR ''-'' \<notin> set (escapeVelocityFact1
        (generateFacts sci mass (calculateRelativisticEffects m r1 r2 a))) \<and>
     CHR ''-'' \<notin> set (escapeVelocityFact2
        (generateFacts sci mass (calculateRelativisticEffects m r1 r2 a)))"
proof -
  let ?tp = "toFixed sci (js_mul (js_sub (relativeTimeDilation e) (Num 1)) (Num 100)) 4"
  let ?rp = "toFixed sci (js_mul (redshift e) (Num 100)) 4"
  have td_pos: "CHR ''-'' \<notin> set (textOf ?tp)" if "js_gt (relativeTimeDilation e) (Num 1)"
  proof (rule toFixed_no_minus [OF H])
    show "\<not> js_lt (js_mul (js_sub (relativeTimeDilation e) (Num 1)) (Num 100)) (Num 0)"
      using that by (cases "relativeTimeDilation e") (simp_all add: js_gt_def js_sub_def signedInf_def)
  qed
  have rs_pos: "CHR ''-'' \<notin> set (textOf ?rp)" if "js_gt (redshift e) (Num 0)"
  proof (rule toFixed_no_minus [OF H])
    show "\<not> js_lt (js_mul (redshift e) (Num 100)) (Num 0)"
      using that by (cases "redshift e") (simp_all add: js_gt_def signedInf_def)
  qed
  have td_abs: "CHR ''-'' \<notin> set (jsToString sci (js_abs (numberOf ?tp)))"
    by (rule abs_text_no_minus [OF H])
  have rs_abs: "CHR ''-'' \<notin> set (jsToString sci (js_abs (numberOf ?rp)))"
    by (rule abs_text_no_minus [OF H])
  have c1: "CHR ''-'' \<notin> set (timeDilationFact (generateFacts sci mass e))"
    using td_pos td_abs by (simp add: generateFacts_def Let_def)
  have c2: "CHR ''-'' \<notin> set (redshiftFact (generateFacts sci mass e))"
    using rs_pos rs_abs by (simp add: generateFacts_def Let_def)
  have c3: "take 10 (timeDilationFact (generateFacts sci mass e)) =
       (if js_gt (relativeTimeDilation e) (Num 1) then ''Observer 2'' else ''Observer 1'')"
    by (simp add: generateFacts_def Let_def)
  have c4: "take 21 (redshiftFact (generateFacts sci mass e)) =
       (if js_gt (redshift e) (Num 0) then ''Light from Observer 2'' else ''Light from Observer 1'')"
    by (simp add: generateFacts_def Let_def)
  have c5: "\<not> js_gt (relativeTimeDilation e) (Num 1) \<longrightarrow>
        timeDilationFact (generateFacts sci mass e) =
          ''Observer 1 experiences time '' @ jsToString sci (js_abs (numberOf ?tp)) @
          ''% slower than Observer 2 due to being deeper in the gravitational well.''"
    by (simp add: generateFacts_def Let_def)
  have c6: "\<not> js_gt (redshift e) (Num 0) \<longrightarrow>
        redshiftFact (generateFacts sci mass e) =
          ''Light from Observer 1 appears redshifted by '' @
          jsToString sci (js_abs (numberOf ?rp)) @ ''% to Observer 2.''"
    by (simp add: generateFacts_def Let_def)
  have e1: "escapeVelocity (observer1 (calculateRelativisticEffects m r1 r2 a)) =
      js_sqrt (js_mul (js_mul (Num 2) (js_div m r1)) SCALE_FACTOR)"
    and e2: "escapeVelocity (observer2 (calculateRelativisticEffects m r1 r2 a)) =
      js_sqrt (js_mul (js_mul (Num 2) (js_div m r2)) SCALE_FACTOR)"
    by (simp_all add: calculateRelativisticEffects_def Let_def)
  have v1: "CHR ''-'' \<notin> set (textOf (toFixed sci
      (js_mul (escapeVelocity (observer1 (calculateRelativisticEffects m r1 r2 a))) (Num 100)) 2))"
    unfolding e1 by (rule toFixed_no_minus [OF H js_sqrt_nonneg])
  have v2: "CHR ''-'' \<notin> set (textOf (toFixed sci
      (js_mul (escapeVelocity (observer2 (calculateRelativisticEffects m r1 r2 a))) (Num 100)) 2))"
    unfolding e2 by (rule toFixed_no_minus [OF H js_sqrt_nonneg])
  have c7: "CHR ''-'' \<notin> set (escapeVelocityFact1
        (generateFacts sci mass (calculateRelativisticEffects m r1 r2 a)))"
    using v1 by (simp add: generateFacts_def Let_def)
  have c8: "CHR ''-'' \<notin> set (escapeVelocityFact2
        (generateFacts sci mass (calculateRelativisticEffects m r1 r2 a)))"
    using v2 by (simp add: generateFacts_def Let_def)
  from c1 c2 c3 c4 c5 c6 c7 c8 show ?thesis by blast
qed

lemma shortDecimal_example: "shortDecimal 19500 = ''1.95''"
  by (simp add: shortDecimal_def Let_def natDigits.simps)

lemma toFixed_example: "toFixed (\<lambda>r. ''1e+21'') (Num (- (195 / 100))) 4 = \<lparr>textOf = ''-1.9500'', numberOf = Num (- (195 / 100))\<rparr>"
  by (simp add: Let_def fixedText_def natDigits.simps)

theorem facts_no_negative_percentage_witness:
  "timeDilationFact (generateFacts (\<lambda>r. ''1e+21'') (Num 10)
      \<lparr>observer1 = \<lparr>obs_x = Num 20, obs_y = Num 0, obs_r = Num 20, potential = Num (1 / 2),
                      timeDilation = Num (10541 / 10000), escapeVelocity = Num (3162 / 10000)\<rparr>,
       observer2 = \<lparr>obs_x = Num (- 15), obs_y = Num 26, obs_r = Num 30, potential = Num (1 / 3),
                      timeDilation = Num (10351 / 10000), escapeVelocity = Num (2582 / 10000)\<rparr>,
       relativeTimeDilation = Num (9805 / 10000), lightTravelTime = Num 45, redshift = Num (- (195 / 10000)),
       spaceContraction1 = Num (9487 / 10000), spaceContraction2 = Num (9661 / 10000),
       distance = Num 44\<rparr>) =
     ''Observer 1 experiences time 1.95% slower than Observer 2 due to being deeper in the gravitational well.'' \<and>
   CHR ''-'' \<notin> set (redshiftFact (generateFacts (\<lambda>r. ''1e+21'') (Num 10)
      \<lparr>observer1 = \<lparr>obs_x = Num 20, obs_y = Num 0, obs_r = Num 20, potential = Num (1 / 2),
                      timeDilation = Num (10541 / 10000), escapeVelocity = Num (3162 / 10000)\<rparr>,
       observer2 = \<lparr>obs_x = Num (- 15), obs_y = Num 26, obs_r = Num 30, potential = Num (1 / 3),
                      timeDilation = Num (10351 / 10000), escapeVelocity = Num (2582 / 10000)\<rparr>,
       relativeTimeDilation = Num (9805 / 10000), lightTravelTime = Num 45, redshift = Num (- (195 / 10000)),
       spaceContraction1 = Num (9487 / 10000), spaceContraction2 = Num (9661 / 10000),
       distance = Num 44\<rparr>)) \<and>
   redshiftFact (generateFacts (\<lambda>r. ''1e+21'') (Num 10)
      \<lparr>observer1 = \<lparr>obs_x = Num 20, obs_y = Num 0, obs_r = Num 20, potential = Num (1 / 2),
                      timeDilation = Num (10541 / 10000), escapeVelocity = Num (3162 / 10000)\<rparr>,
       observer2 = \<lparr>obs_x = Num (- 15), obs_y = Num 26, obs_r = Num 30, potential = Num (1 / 3),
                      timeDilation = Num (10351 / 10000), escapeVelocity = Num (2582 / 10000)\<rparr>,
       relativeTimeDilation = Num (9805 / 10000), lightTravelTime = Num 45, redshift = Num (- (195 / 10000)),
       spaceContraction1 = Num (9487 / 10000), spaceContraction2 = Num (9661 / 10000),
       distance = Num 44\<rparr>) =
     ''Light from Observer 1 appears redshifted by 1.95% to Observer 2.''"
proof -
  let ?e = "\<lparr>observer1 = \<lparr>obs_x = Num 20, obs_y = Num 0, obs_r = Num 20, potential = Num (1 / 2),
                      timeDilation = Num (10541 / 10000), escapeVelocity = Num (3162 / 10000)\<rparr>,
       observer2 = \<lparr>obs_x = Num (- 15), obs_y = Num 26, obs_r = Num 30, potential = Num (1 / 3),
                      timeDilation = Num (10351 / 10000), escapeVelocity = Num (2582 / 10000)\<rparr>,
       relativeTimeDilation = Num (9805 / 10000), lightTravelTime = Num 45, redshift = Num (- (195 / 10000)),
       spaceContraction1 = Num (9487 / 10000), spaceContraction2 = Num (9661 / 10000),
       distance = Num 44\<rparr>"
  have h: "\<forall>r::real. 10 ^ 21 \<le> r \<longrightarrow> CHR ''-'' \<notin> set ''1e+21''"
    by simp
  have ng: "\<not> js_gt (relativeTimeDilation ?e) (Num 1)"
    by (simp add: js_gt_def)
  have p: "js_mul (js_sub (relativeTimeDilation ?e) (Num 1)) (Num 100) = Num (- (195 / 100))"
    by (simp add: js_sub_def)
  have a: "jsToString (\<lambda>r. ''1e+21'') (js_abs (Num (- (195 / 100)))) = ''1.95''"
    by (simp add: shortDecimal_example)
  note inst = facts_no_negative_percentage [OF h, of "Num 10" ?e]
  from inst ng have "timeDilationFact (generateFacts (\<lambda>r. ''1e+21'') (Num 10) ?e) =
          ''Observer 1 experiences time '' @
          jsToString (\<lambda>r. ''1e+21'') (js_abs (numberOf
            (toFixed (\<lambda>r. ''1e+21'') (js_mul (js_sub (relativeTimeDilation ?e) (Num 1)) (Num 100)) 4))) @
          ''% slower than Observer 2 due to being deeper in the gravitational well.''"
    by blast
  then have "timeDilationFact (generateFacts (\<lambda>r. ''1e+21'') (Num 10) ?e) =
     ''Observer 1 experiences time 1.95% slower than Observer 2 due to being deeper in the gravitational well.''"
    unfolding p toFixed_example numericString.select_convs a by simp
  moreover from inst have "CHR ''-'' \<notin> set (redshiftFact (generateFacts (\<lambda>r. ''1e+21'') (Num 10) ?e))"
    by blast
  moreover have "redshiftFact (generateFacts (\<lambda>r. ''1e+21'') (Num 10) ?e) =
     ''Light from Observer 1 appears redshifted by 1.95% to Observer 2.''"
  proof -
    have nr: "\<not> js_gt (redshift ?e) (Num 0)"
      by (simp add: js_gt_def)
    have q: "js_mul (redshift ?e) (Num 100) = Num (- (195 / 100))"
      by simp
    from inst nr have "redshiftFact (generateFacts (\<lambda>r. ''1e+21'') (Num 10) ?e) =
          ''Light from Observer 1 appears redshifted by '' @
          jsToString (\<lambda>r. ''1e+21'') (js_abs (numberOf
            (toFixed (\<lambda>r. ''1e+21'') (js_mul (redshift ?e) (Num 100)) 4))) @
          ''% to Observer 2.''"
      by blast
    then show ?thesis
      unfolding q toFixed_example numericString.select_convs a by simp
  qed
  ultimately show ?thesis by blast
qed

section \<open>Properties of the redshift in double precision\<close>

lemma roundEven_err: "\<bar>real_of_int (roundEven y) - y\<bar> \<le> 1 / 2"
  unfolding roundEven_def by (auto simp: abs_le_iff)

lemma roundEven_eval:
  assumes "real_of_int k - 1 / 2 < y" "y < real_of_int k + 1 / 2"
  shows "roundEven y = k"
proof -
  have "\<bar>real_of_int (roundEven y) - y\<bar> \<le> 1 / 2" by (rule roundEven_err)
  with assms have "\<bar>real_of_int (roundEven y) - real_of_int k\<bar> < 1" by linarith
  then have "\<bar>roundEven y - k\<bar> < 1"
    by (metis of_int_diff of_int_abs of_int_less_iff of_int_1)
  then show ?thesis by linarith
qed

lemma binadeExponent_eval:
  assumes "2 powr real_of_int e \<le> \<bar>x\<bar>" "\<bar>x\<bar> < 2 powr (real_of_int e + 1)" "- 1022 \<le> e"
  shows "binadeExponent x = e"
proof -
  have "0 < 2 powr real_of_int e" by simp
  with assms(1) have pos: "0 < \<bar>x\<bar>" by linarith
  have "real_of_int e \<le> log 2 \<bar>x\<bar>"
    using assms(1) pos by (simp add: le_log_iff)
  moreover have "log 2 \<bar>x\<bar> < real_of_int e + 1"
    using assms(2) pos by (simp add: log_less_iff)
  ultimately have "\<lfloor>log 2 \<bar>x\<bar>\<rfloor> = e" by linarith
  then show ?thesis using assms(3) by (simp add: binadeExponent_def)
qed

lemma fl_eval:
  assumes "2 powr real_of_int e \<le> \<bar>x\<bar>" "\<bar>x\<bar> < 2 powr (real_of_int e + 1)" "- 1022 \<le> e"
    and "real_of_int k - 1 / 2 < x / 2 powr real_of_int (e - 52)"
    and "x / 2 powr real_of_int (e - 52) < real_of_int k + 1 / 2"
  shows "fl x = real_of_int k * 2 powr real_of_int (e - 52)"
proof -
  have "0 < 2 powr real_of_int e" by simp
  with assms(1) have "x \<noteq> 0" by auto
  moreover have "binadeExponent x = e" by (rule binadeExponent_eval) fact+
  moreover have "roundEven (x / 2 powr real_of_int (e - 52)) = k" by (rule roundEven_eval) fact+
  ultimately show ?thesis by (simp add: fl_def)
qed

lemma fl_spacing:
  assumes "x \<noteq> 0"
  shows "\<bar>fl x - x\<bar> \<le> 2 powr real_of_int (binadeExponent x - 52) / 2"
proof -
  define u where "u = 2 powr real_of_int (binadeExponent x - 52)"
  have upos: "0 < u" by (simp add: u_def)
  have "fl x - x = (real_of_int (roundEven (x / u)) - x / u) * u"
    using assms upos by (simp add: fl_def u_def field_simps)
  then have "\<bar>fl x - x\<bar> = \<bar>real_of_int (roundEven (x / u)) - x / u\<bar> * u"
    using upos by (simp add: abs_mult)
  also have "\<dots> \<le> 1 / 2 * u"
    using roundEven_err [of "x / u"] upos by (simp only: mult_right_mono less_imp_le)
  finally show ?thesis unfolding u_def by simp
qed

lemma fl_rel:
  assumes "1 / 2 ^ 1022 \<le> \<bar>x\<bar>"
  shows "\<bar>fl x - x\<bar> \<le> \<bar>x\<bar> / 2 ^ 53"
proof -
  have "(0::real) < 1 / 2 ^ 1022" by simp
  with assms have pos: "0 < \<bar>x\<bar>" by linarith
  then have nz: "x \<noteq> 0" by auto
  have "2 powr (- 1022) \<le> \<bar>x\<bar>"
    using assms by (simp add: powr_neg_numeral)
  then have "- 1022 \<le> log 2 \<bar>x\<bar>"
    using pos by (simp add: le_log_iff)
  then have "- 1022 \<le> \<lfloor>log 2 \<bar>x\<bar>\<rfloor>" by linarith
  then have e: "binadeExponent x = \<lfloor>log 2 \<bar>x\<bar>\<rfloor>"
    by (simp add: binadeExponent_def)
  have "real_of_int (binadeExponent x) \<le> log 2 \<bar>x\<bar>" unfolding e by simp
  then have "2 powr real_of_int (binadeExponent x) \<le> \<bar>x\<bar>"
    using pos by (simp add: le_log_iff)
  moreover have "2 powr real_of_int (binadeExponent x - 52) / 2 =
      2 powr real_of_int (binadeExponent x) / 2 ^ 53"
    by (simp add: powr_diff)
  ultimately have "2 powr real_of_int (binadeExponent x - 52) / 2 \<le> \<bar>x\<bar> / 2 ^ 53"
    by (simp add: divide_right_mono)
  with fl_spacing [OF nz] show ?thesis by linarith
qed

lemma fl_err: "\<bar>fl x - x\<bar> \<le> \<bar>x\<bar> / 2 ^ 53 + 1 / 2 ^ 1075"
proof (cases "1 / 2 ^ 1022 \<le> \<bar>x\<bar>")
  case True
  have "(0::real) \<le> 1 / 2 ^ 1075" by simp
  with fl_rel [OF True] show ?thesis by linarith
next
  case False
  show ?thesis
  proof (cases "x = 0")
    case True
    then show ?thesis by (simp add: fl_def)
  next
    case nz: False
    then have pos: "0 < \<bar>x\<bar>" by simp
    from False have "\<bar>x\<bar> < 2 powr (- 1022)"
      by (simp add: powr_neg_numeral)
    then have "log 2 \<bar>x\<bar> < - 1022"
      using pos by (simp add: log_less_iff)
    then have "\<lfloor>log 2 \<bar>x\<bar>\<rfloor> \<le> - 1022" by linarith
    then have "binadeExponent x = - 1022" by (simp add: binadeExponent_def)
    then have "2 powr real_of_int (binadeExponent x - 52) / 2 = 1 / 2 ^ 1075"
      by (simp add: powr_neg_numeral)
    moreover have "0 \<le> \<bar>x\<bar> / 2 ^ 53" by simp
    ultimately show ?thesis using fl_spacing [OF nz] by linarith
  qed
qed

lemma fl_small:
  assumes "\<bar>x\<bar> \<le> 16"
  shows "\<bar>fl x - x\<bar> \<le> 1 / 2 ^ 48"
proof -
  have "\<bar>x\<bar> / 2 ^ 53 \<le> 16 / 2 ^ 53" using assms by (simp add: divide_right_mono)
  moreover have "(16::real) / 2 ^ 53 + 1 / 2 ^ 1075 \<le> 1 / 2 ^ 48" by simp
  ultimately show ?thesis using fl_err [of x] by linarith
qed

lemma rnd64_Num:
  assumes "\<bar>x\<bar> \<le> 16"
  shows "rnd64 (Num x) = Num (fl x)"
proof -
  have "\<bar>fl x\<bar> \<le> \<bar>x\<bar> + 1 / 2 ^ 48" using fl_small [OF assms] by linarith
  moreover have "(16::real) + 1 / 2 ^ 48 < 2 ^ 1024" by simp
  ultimately have "\<not> 2 ^ 1024 \<le> \<bar>fl x\<bar>" using assms by linarith
  then show ?thesis by simp
qed

lemma fl_tenth: "fl (1 / 10) = 3602879701896397 / 36028797018963968"
proof -
  have "fl (1 / 10) = real_of_int 7205759403792794 * 2 powr real_of_int (- 4 - 52)"
    by (rule fl_eval) (simp_all add: powr_neg_numeral)
  then show ?thesis by (simp add: powr_neg_numeral)
qed

lemma SCALE_FACTOR64_Num: "SCALE_FACTOR64 = Num (3602879701896397 / 36028797018963968)"
proof -
  have "rnd64 (Num (1 / 10)) = Num (fl (1 / 10))" by (rule rnd64_Num) simp
  then show ?thesis by (simp only: SCALE_FACTOR64_def SCALE_FACTOR_def fl_tenth)
qed

lemma term64:
  fixes m r :: real
  defines "a \<equiv> fl (1 - fl (fl (2 * fl (m / r)) * (3602879701896397 / 36028797018963968)))"
  assumes r: "r \<noteq> 0" and lo: "0 \<le> m / r" and hi: "m / r \<le> 49 / 10"
  shows "js_sub64 (Num 1) (js_mul64 (js_mul64 (Num 2) (js_div64 (Num m) (Num r))) SCALE_FACTOR64) = Num a"
    and "1 / 51 \<le> a" and "a \<le> 51 / 50"
proof -
  define q where "q = m / r"
  define p where "p = fl q"
  define w where "w = fl (2 * p)"
  define v where "v = fl (w * (3602879701896397 / 36028797018963968))"
  have a: "a = fl (1 - v)" by (simp add: a_def v_def w_def p_def q_def)
  have q: "0 \<le> q" "q \<le> 49 / 10" using lo hi by (simp_all add: q_def)
  define eps :: real where "eps = 1 / 2 ^ 48"
  have e: "0 \<le> eps" "eps \<le> 1 / 100000000000000" by (simp_all add: eps_def)
  have qa: "\<bar>q\<bar> \<le> 16" using q by linarith
  have p: "\<bar>p - q\<bar> \<le> eps" unfolding p_def eps_def by (rule fl_small [OF qa])
  have pa: "\<bar>2 * p\<bar> \<le> 16" using p q e by linarith
  have w: "\<bar>w - 2 * p\<bar> \<le> eps" unfolding w_def eps_def by (rule fl_small [OF pa])
  have wa: "\<bar>w * (3602879701896397 / 36028797018963968)\<bar> \<le> 16" using w p q e by linarith
  have v: "\<bar>v - w * (3602879701896397 / 36028797018963968)\<bar> \<le> eps"
    unfolding v_def eps_def by (rule fl_small [OF wa])
  have vb: "- (1 / 10000) \<le> v" "v \<le> 9801 / 10000" using v w p q e by linarith+
  have va: "\<bar>1 - v\<bar> \<le> 16" using vb by linarith
  have ab: "\<bar>a - (1 - v)\<bar> \<le> eps" unfolding a eps_def by (rule fl_small [OF va])
  show "1 / 51 \<le> a" using ab vb e by linarith
  show "a \<le> 51 / 50" using ab vb e by linarith
  have P: "js_div64 (Num m) (Num r) = Num p"
    using r rnd64_Num [OF qa] by (simp add: js_div64_def p_def q_def)
  have W: "js_mul64 (Num 2) (Num p) = Num w"
    using rnd64_Num [OF pa] by (simp add: js_mul64_def w_def)
  have V: "js_mul64 (Num w) (Num (3602879701896397 / 36028797018963968)) = Num v"
    using rnd64_Num [OF wa] by (simp add: js_mul64_def v_def)
  have A: "js_sub64 (Num 1) (Num v) = Num a"
    using rnd64_Num [OF va] by (simp add: js_sub64_def js_sub_def a)
  show "js_sub64 (Num 1) (js_mul64 (js_mul64 (Num 2) (js_div64 (Num m) (Num r))) SCALE_FACTOR64) = Num a"
    by (simp only: P W SCALE_FACTOR64_Num V A)
qed

lemma rnd64_Num_1024:
  assumes "\<bar>x\<bar> \<le> 1024"
  shows "rnd64 (Num x) = Num (fl x)"
proof -
  have "\<bar>x\<bar> / 2 ^ 53 \<le> 1024 / 2 ^ 53" using assms by (simp add: divide_right_mono)
  moreover have "(1024::real) + 1024 / 2 ^ 53 + 1 / 2 ^ 1075 < 2 ^ 1024" by simp
  ultimately have "\<not> 2 ^ 1024 \<le> \<bar>fl x\<bar>" using assms fl_err [of x] by linarith
  then show ?thesis by simp
qed

lemma sqrt_diff:
  fixes x y :: real
  assumes "0 \<le> x" "0 < y"
  shows "\<bar>sqrt x - sqrt y\<bar> \<le> \<bar>x - y\<bar> / sqrt y"
proof -
  have sy: "0 < sqrt y" using assms(2) by simp
  have sx: "0 \<le> sqrt x" using assms(1) by simp
  have "(sqrt x - sqrt y) * (sqrt x + sqrt y) = sqrt x * sqrt x - sqrt y * sqrt y"
    by (simp add: algebra_simps)
  also have "\<dots> = x - y" using assms by simp
  finally have "x - y = (sqrt x - sqrt y) * (sqrt x + sqrt y)" by simp
  then have "\<bar>x - y\<bar> = \<bar>sqrt x - sqrt y\<bar> * \<bar>sqrt x + sqrt y\<bar>"
    by (simp only: abs_mult)
  moreover have "\<bar>sqrt x + sqrt y\<bar> = sqrt x + sqrt y" using sx sy by linarith
  ultimately have "\<bar>x - y\<bar> = \<bar>sqrt x - sqrt y\<bar> * (sqrt x + sqrt y)" by simp
  moreover have "\<bar>sqrt x - sqrt y\<bar> * sqrt y \<le> \<bar>sqrt x - sqrt y\<bar> * (sqrt x + sqrt y)"
    using sx by (intro mult_left_mono) simp_all
  ultimately have "\<bar>sqrt x - sqrt y\<bar> * sqrt y \<le> \<bar>x - y\<bar>" by simp
  then show ?thesis using sy by (simp add: pos_le_divide_eq)
qed

lemma ratio64:
  fixes a1 a2 :: real
  defines "z \<equiv> fl (fl (sqrt (fl (a2 / a1))) - 1)"
  assumes b: "1 / 51 \<le> a1" "a1 \<le> 51 / 50" "1 / 51 \<le> a2" "a2 \<le> 51 / 50"
  shows "js_sub64 (js_sqrt64 (js_div64 (Num a2) (Num a1))) (Num 1) = Num z"
    and "\<bar>(1 + z) - sqrt (a2 / a1)\<bar> \<le> 1 / 2 ^ 48"
    and "\<bar>1 + z\<bar> \<le> 16"
    and "1 / 8 \<le> sqrt (a2 / a1)"
    and "sqrt (a2 / a1) \<le> 29 / 4"
proof -
  define D where "D = a2 / a1"
  define d where "d = fl D"
  define sg where "sg = sqrt D"
  define sd where "sd = sqrt d"
  define s where "s = fl sd"
  have z: "z = fl (s - 1)" by (simp add: z_def s_def sd_def d_def D_def)
  define eps :: real where "eps = 1 / 2 ^ 53"
  define tau :: real where "tau = 1 / 2 ^ 1075"
  have e: "0 \<le> eps" "eps \<le> 1 / 1000000000000000" "0 \<le> tau" "tau \<le> eps"
    by (simp_all add: eps_def tau_def)
  have a1: "0 < a1" using b(1) by linarith
  have Dlo: "50 / 2601 \<le> D"
    unfolding D_def using a1 b by (simp add: pos_le_divide_eq)
  have Dhi: "D \<le> 2601 / 50"
    unfolding D_def using a1 b by (simp add: pos_divide_le_eq)
  have Dpos: "0 < D" using Dlo by linarith
  have sglo: "1 / 8 \<le> sg"
    unfolding sg_def using Dlo by (intro real_le_rsqrt) (simp add: power2_eq_square)
  have sghi: "sg \<le> 29 / 4"
    unfolding sg_def using Dhi by (intro real_le_lsqrt) (simp_all add: power2_eq_square)
  have sgpos: "0 < sg" using sglo by linarith
  have sgsq: "sg * sg = D" unfolding sg_def using Dpos by simp
  have "1 / 2 ^ 1022 \<le> \<bar>D\<bar>"
  proof -
    have "(1::real) / 2 ^ 1022 \<le> 50 / 2601" by simp
    with Dlo show ?thesis by linarith
  qed
  from fl_rel [OF this] have dD: "\<bar>d - D\<bar> \<le> D * eps"
    using Dpos by (simp add: d_def eps_def)
  have "D * eps \<le> D * (1 / 1000000000000000)"
    using e Dpos by (intro mult_left_mono) simp_all
  then have dpos: "0 < d" using dD Dpos by linarith
  have "\<bar>sd - sg\<bar> \<le> \<bar>d - D\<bar> / sg"
    unfolding sd_def sg_def by (rule sqrt_diff) (use dpos Dpos in simp_all)
  also have "\<dots> \<le> D * eps / sg"
    using dD sgpos by (simp add: divide_right_mono)
  also have "D * eps / sg = sg * eps"
    unfolding sgsq [symmetric] using sgpos by simp
  finally have sdsg: "\<bar>sd - sg\<bar> \<le> sg * eps" .
  have "sg * eps \<le> 29 / 4 * eps"
    using sghi e by (intro mult_right_mono) simp_all
  with sdsg have sdsg': "\<bar>sd - sg\<bar> \<le> 29 / 4 * eps" by linarith
  have sdlo: "1 / 16 \<le> sd" and sdhi: "sd \<le> 8"
    using sdsg' sglo sghi e by linarith+
  have "1 / 2 ^ 1022 \<le> \<bar>sd\<bar>"
  proof -
    have "(1::real) / 2 ^ 1022 \<le> 1 / 16" by simp
    with sdlo show ?thesis by linarith
  qed
  from fl_rel [OF this] have "\<bar>s - sd\<bar> \<le> sd * eps"
    using sdlo by (simp add: s_def eps_def)
  moreover have "sd * eps \<le> 8 * eps"
    using sdhi e by (intro mult_right_mono) simp_all
  ultimately have ssd: "\<bar>s - sd\<bar> \<le> 8 * eps" by linarith
  have s1: "\<bar>s - 1\<bar> \<le> 9" using ssd sdlo sdhi e by linarith
  have "\<bar>z - (s - 1)\<bar> \<le> \<bar>s - 1\<bar> * eps + tau"
    using fl_err [of "s - 1"] by (simp add: z eps_def tau_def)
  moreover have "\<bar>s - 1\<bar> * eps \<le> 9 * eps"
    using s1 e by (intro mult_right_mono) simp_all
  ultimately have zs: "\<bar>z - (s - 1)\<bar> \<le> 10 * eps" using e by linarith
  have "\<bar>(1 + z) - sg\<bar> \<le> 32 * eps"
    using zs ssd sdsg' e by linarith
  moreover have "32 * eps = 1 / 2 ^ 48" by (simp add: eps_def)
  ultimately show "\<bar>(1 + z) - sqrt (a2 / a1)\<bar> \<le> 1 / 2 ^ 48"
    unfolding sg_def D_def by simp
  show "\<bar>1 + z\<bar> \<le> 16" using zs s1 e by linarith
  show "1 / 8 \<le> sqrt (a2 / a1)" using sglo by (simp add: sg_def D_def)
  show "sqrt (a2 / a1) \<le> 29 / 4" using sghi by (simp add: sg_def D_def)
  have Da: "\<bar>D\<bar> \<le> 1024" using Dlo Dhi by linarith
  have X: "js_div64 (Num a2) (Num a1) = Num d"
    using a1 rnd64_Num_1024 [OF Da] by (simp add: js_div64_def d_def D_def)
  have sda: "\<bar>sd\<bar> \<le> 1024" using sdlo sdhi by linarith
  have Y: "js_sqrt64 (Num d) = Num s"
    using dpos rnd64_Num_1024 [OF sda] by (simp add: js_sqrt64_def s_def sd_def)
  have s1a: "\<bar>s - 1\<bar> \<le> 1024" using s1 by linarith
  have Z: "js_sub64 (Num s) (Num 1) = Num z"
    using rnd64_Num_1024 [OF s1a] by (simp add: js_sub64_def js_sub_def z)
  show "js_sub64 (js_sqrt64 (js_div64 (Num a2) (Num a1))) (Num 1) = Num z"
    by (simp only: X Y Z)
qed

lemma prod_err:
  fixes x y a b e A :: real
  assumes x: "\<bar>x - a\<bar> \<le> e" and y: "\<bar>y - b\<bar> \<le> e"
    and a: "\<bar>a\<bar> \<le> A" and b: "\<bar>b\<bar> \<le> A" and e: "e \<le> 1"
  shows "\<bar>x * y - a * b\<bar> \<le> (2 * A + 1) * e"
proof -
  have e0: "0 \<le> e" using x by linarith
  have A0: "0 \<le> A" using a by linarith
  have "x * y - a * b = (x - a) * b + a * (y - b) + (x - a) * (y - b)"
    by (simp add: algebra_simps)
  then have "\<bar>x * y - a * b\<bar> \<le> \<bar>(x - a) * b\<bar> + \<bar>a * (y - b)\<bar> + \<bar>(x - a) * (y - b)\<bar>"
    by linarith
  moreover have "\<bar>(x - a) * b\<bar> \<le> e * A"
    unfolding abs_mult by (rule mult_mono) (use x b e0 in simp_all)
  moreover have "\<bar>a * (y - b)\<bar> \<le> A * e"
    unfolding abs_mult by (rule mult_mono) (use y a A0 in simp_all)
  moreover have "\<bar>(x - a) * (y - b)\<bar> \<le> 1 * e"
  proof -
    have "\<bar>x - a\<bar> \<le> 1" using x e by linarith
    then show ?thesis unfolding abs_mult by (rule mult_mono) (use y in simp_all)
  qed
  ultimately show ?thesis by (simp add: algebra_simps)
qed

lemma redshift64_in_domain:
  fixes m r1 r2 :: real
  defines "a1 \<equiv> fl (1 - fl (fl (2 * fl (m / r1)) * (3602879701896397 / 36028797018963968)))"
  defines "a2 \<equiv> fl (1 - fl (fl (2 * fl (m / r2)) * (3602879701896397 / 36028797018963968)))"
  defines "z \<equiv> fl (fl (sqrt (fl (a2 / a1))) - 1)"
  assumes "r1 \<noteq> 0" "0 \<le> m / r1" "m / r1 \<le> 49 / 10"
    and "r2 \<noteq> 0" "0 \<le> m / r2" "m / r2 \<le> 49 / 10"
  shows "redshift64 (Num m) (Num r1) (Num r2) = Num z"
    and "\<bar>(1 + z) - sqrt (a2 / a1)\<bar> \<le> 1 / 2 ^ 48"
    and "\<bar>1 + z\<bar> \<le> 16"
    and "1 / 8 \<le> sqrt (a2 / a1)"
    and "sqrt (a2 / a1) \<le> 29 / 4"
    and "0 < a1" and "0 < a2"
proof -
  note t1 = term64 [OF assms(4,5,6), folded a1_def]
  note t2 = term64 [OF assms(7,8,9), folded a2_def]
  note r = ratio64 [OF t1(2,3) t2(2,3), folded z_def]
  show "redshift64 (Num m) (Num r1) (Num r2) = Num z"
    by (simp only: redshift64_def Let_def t1(1) t2(1) r(1))
  show "\<bar>(1 + z) - sqrt (a2 / a1)\<bar> \<le> 1 / 2 ^ 48" by (rule r(2))
  show "\<bar>1 + z\<bar> \<le> 16" by (rule r(3))
  show "1 / 8 \<le> sqrt (a2 / a1)" by (rule r(4))
  show "sqrt (a2 / a1) \<le> 29 / 4" by (rule r(5))
  show "0 < a1" using t1(2) by linarith
  show "0 < a2" using t2(2) by linarith
qed

lemma fl_eval_nat:
  fixes n :: nat
  assumes "2 ^ 52 \<le> \<bar>x\<bar> * 2 ^ n" "\<bar>x\<bar> * 2 ^ n < 2 ^ 53"
    and "real_of_int k - 1 / 2 < x * 2 ^ n" "x * 2 ^ n < real_of_int k + 1 / 2"
    and "n \<le> 1074"
  shows "fl x = real_of_int k / 2 ^ n"
proof -
  define e where "e = 52 - int n"
  have u: "2 powr real_of_int (e - 52) = 1 / 2 ^ n"
    by (simp add: e_def powr_minus powr_realpow divide_inverse)
  have p: "2 powr real_of_int e = 2 ^ 52 / 2 ^ n"
    by (simp add: e_def powr_diff powr_realpow)
  have p1: "2 powr (real_of_int e + 1) = 2 ^ 53 / 2 ^ n"
    by (simp add: powr_add p)
  have "fl x = real_of_int k * 2 powr real_of_int (e - 52)"
  proof (rule fl_eval)
    show "2 powr real_of_int e \<le> \<bar>x\<bar>"
      unfolding p using assms(1) by (simp add: pos_divide_le_eq)
    show "\<bar>x\<bar> < 2 powr (real_of_int e + 1)"
      unfolding p1 using assms(2) by (simp add: pos_less_divide_eq)
    show "- 1022 \<le> e" using assms(5) by (simp add: e_def)
    show "real_of_int k - 1 / 2 < x / 2 powr real_of_int (e - 52)"
      unfolding u using assms(3) by simp
    show "x / 2 powr real_of_int (e - 52) < real_of_int k + 1 / 2"
      unfolding u using assms(4) by simp
  qed
  then show ?thesis unfolding u by simp
qed

lemma fl_eval_sqrt:
  fixes n :: nat
  assumes "2 ^ 52 + 1 / 2 \<le> real_of_int k" "real_of_int k + 1 / 2 \<le> 2 ^ 53"
    and "((real_of_int k - 1 / 2) / 2 ^ n)\<^sup>2 < d" "d < ((real_of_int k + 1 / 2) / 2 ^ n)\<^sup>2"
    and "n \<le> 1074"
  shows "fl (sqrt d) = real_of_int k / 2 ^ n"
proof -
  have lo: "(real_of_int k - 1 / 2) / 2 ^ n < sqrt d"
    by (rule real_less_rsqrt) (rule assms(3))
  have "0 \<le> (real_of_int k + 1 / 2) / 2 ^ n" using assms(1) by simp
  then have hi: "sqrt d < (real_of_int k + 1 / 2) / 2 ^ n"
    by (rule real_less_lsqrt [OF _ assms(4)])
  have l: "real_of_int k - 1 / 2 < sqrt d * 2 ^ n"
    using lo by (simp add: pos_divide_less_eq)
  have h: "sqrt d * 2 ^ n < real_of_int k + 1 / 2"
    using hi by (simp add: pos_less_divide_eq)
  have "0 \<le> (real_of_int k - 1 / 2) / 2 ^ n" using assms(1) by simp
  with lo have "0 \<le> sqrt d" by linarith
  then have a: "\<bar>sqrt d\<bar> = sqrt d" by (rule abs_of_nonneg)
  show ?thesis
  proof (rule fl_eval_nat)
    show "2 ^ 52 \<le> \<bar>sqrt d\<bar> * 2 ^ n" unfolding a using l assms(1) by linarith
    show "\<bar>sqrt d\<bar> * 2 ^ n < 2 ^ 53" unfolding a using h assms(2) by linarith
  qed (rule l h assms(5))+
qed

lemma rnd64_fl:
  assumes "fl x = c" "\<bar>c\<bar> < 2 ^ 1024"
  shows "rnd64 (Num x) = Num c"
  using assms by simp

lemma term64_1_10:
  "js_sub64 (Num 1) (js_mul64 (js_mul64 (Num 2) (js_div64 (Num 1) (Num 10))) SCALE_FACTOR64) =
     Num (2206763817411543 / 2251799813685248)"
proof -
  have p: "fl (1 / 10) = (3602879701896397 / 36028797018963968)"
  proof -
    have "fl (1 / 10) = real_of_int 7205759403792794 / 2 ^ 56"
      by (rule fl_eval_nat) simp_all
    then show ?thesis by simp
  qed
  have w: "fl (2 * (3602879701896397 / 36028797018963968)) = (3602879701896397 / 18014398509481984)"
  proof -
    have "fl (2 * (3602879701896397 / 36028797018963968)) = real_of_int 7205759403792794 / 2 ^ 55"
      by (rule fl_eval_nat) simp_all
    then show ?thesis by simp
  qed
  have v: "fl ((3602879701896397 / 18014398509481984) * (3602879701896397 / 36028797018963968)) = (1441151880758559 / 72057594037927936)"
  proof -
    have "fl ((3602879701896397 / 18014398509481984) * (3602879701896397 / 36028797018963968)) = real_of_int 5764607523034236 / 2 ^ 58"
      by (rule fl_eval_nat) simp_all
    then show ?thesis by simp
  qed
  have a: "fl ((70616442157169377 / 72057594037927936)) = (2206763817411543 / 2251799813685248)"
  proof -
    have "fl ((70616442157169377 / 72057594037927936)) = real_of_int 8827055269646172 / 2 ^ 53"
      by (rule fl_eval_nat) simp_all
    then show ?thesis by simp
  qed
  have P: "js_div64 (Num 1) (Num 10) = Num (3602879701896397 / 36028797018963968)"
    unfolding js_div64_def by (simp add: p)
  have W: "js_mul64 (Num 2) (Num (3602879701896397 / 36028797018963968)) = Num (3602879701896397 / 18014398509481984)"
    unfolding js_mul64_def js_mul.simps by (rule rnd64_fl [OF w]) simp
  have V: "js_mul64 (Num (3602879701896397 / 18014398509481984)) (Num (3602879701896397 / 36028797018963968)) = Num (1441151880758559 / 72057594037927936)"
    unfolding js_mul64_def js_mul.simps by (rule rnd64_fl [OF v]) simp
  have A: "js_sub64 (Num 1) (Num (1441151880758559 / 72057594037927936)) = Num (2206763817411543 / 2251799813685248)"
    unfolding js_sub64_def js_sub_def by (simp add: a)
  show ?thesis by (simp only: P W SCALE_FACTOR64_Num V A)
qed

lemma term64_1_11:
  "js_sub64 (Num 1) (js_mul64 (js_mul64 (Num 2) (js_div64 (Num 1) (Num 11))) SCALE_FACTOR64) =
     Num (8843431995563883 / 9007199254740992)"
proof -
  have p: "fl (1 / 11) = (3275345183542179 / 36028797018963968)"
  proof -
    have "fl (1 / 11) = real_of_int 6550690367084358 / 2 ^ 56"
      by (rule fl_eval_nat) simp_all
    then show ?thesis by simp
  qed
  have w: "fl (2 * (3275345183542179 / 36028797018963968)) = (3275345183542179 / 18014398509481984)"
  proof -
    have "fl (2 * (3275345183542179 / 36028797018963968)) = real_of_int 6550690367084358 / 2 ^ 55"
      by (rule fl_eval_nat) simp_all
    then show ?thesis by simp
  qed
  have v: "fl ((3275345183542179 / 18014398509481984) * (3602879701896397 / 36028797018963968)) = (5240552293667487 / 288230376151711744)"
  proof -
    have "fl ((3275345183542179 / 18014398509481984) * (3602879701896397 / 36028797018963968)) = real_of_int 5240552293667487 / 2 ^ 58"
      by (rule fl_eval_nat) simp_all
    then show ?thesis by simp
  qed
  have a: "fl ((282989823858044257 / 288230376151711744)) = (8843431995563883 / 9007199254740992)"
  proof -
    have "fl ((282989823858044257 / 288230376151711744)) = real_of_int 8843431995563883 / 2 ^ 53"
      by (rule fl_eval_nat) simp_all
    then show ?thesis by simp
  qed
  have P: "js_div64 (Num 1) (Num 11) = Num (3275345183542179 / 36028797018963968)"
    unfolding js_div64_def by (simp add: p)
  have W: "js_mul64 (Num 2) (Num (3275345183542179 / 36028797018963968)) = Num (3275345183542179 / 18014398509481984)"
    unfolding js_mul64_def js_mul.simps by (rule rnd64_fl [OF w]) simp
  have V: "js_mul64 (Num (3275345183542179 / 18014398509481984)) (Num (3602879701896397 / 36028797018963968)) = Num (5240552293667487 / 288230376151711744)"
    unfolding js_mul64_def js_mul.simps by (rule rnd64_fl [OF v]) simp
  have A: "js_sub64 (Num 1) (Num (5240552293667487 / 288230376151711744)) = Num (8843431995563883 / 9007199254740992)"
    unfolding js_sub64_def js_sub_def by (simp add: a)
  show ?thesis by (simp only: P W SCALE_FACTOR64_Num V A)
qed

lemma redshift64_1_10_11:
  "redshift64 (Num 1) (Num 10) (Num 11) = Num (4175800273423 / 4503599627370496)"
proof -
  have d: "fl ((2947810665187961 / 2942351756548724)) = (4511955099777491 / 4503599627370496)"
  proof -
    have "fl ((2947810665187961 / 2942351756548724)) = real_of_int 4511955099777491 / 2 ^ 52"
      by (rule fl_eval_nat) simp_all
    then show ?thesis by simp
  qed
  have s: "fl (sqrt (4511955099777491 / 4503599627370496)) = (4507775427643919 / 4503599627370496)"
  proof -
    have "fl (sqrt (4511955099777491 / 4503599627370496)) = real_of_int 4507775427643919 / 2 ^ 52"
      by (rule fl_eval_sqrt) (simp_all add: power2_eq_square)
    then show ?thesis by simp
  qed
  have z: "fl ((4175800273423 / 4503599627370496)) = (4175800273423 / 4503599627370496)"
  proof -
    have "fl ((4175800273423 / 4503599627370496)) = real_of_int 8552038959970304 / 2 ^ 63"
      by (rule fl_eval_nat) simp_all
    then show ?thesis by simp
  qed
  have D: "js_div64 (Num (8843431995563883 / 9007199254740992)) (Num (2206763817411543 / 2251799813685248)) = Num (4511955099777491 / 4503599627370496)"
    unfolding js_div64_def by (simp add: d)
  have S: "js_sqrt64 (Num (4511955099777491 / 4503599627370496)) = Num (4507775427643919 / 4503599627370496)"
    unfolding js_sqrt64_def by (simp only: js_sqrt.simps) (simp add: s)
  have Z: "js_sub64 (Num (4507775427643919 / 4503599627370496)) (Num 1) = Num (4175800273423 / 4503599627370496)"
    unfolding js_sub64_def js_sub_def by (simp add: z)
  show ?thesis
    by (simp only: redshift64_def Let_def term64_1_10 term64_1_11 D S Z)
qed

lemma redshift64_1_11_10:
  "redshift64 (Num 1) (Num 11) (Num 10) = Num (- (8343863999983 / 9007199254740992))"
proof -
  have d: "fl ((2942351756548724 / 2947810665187961)) = (8990519256121101 / 9007199254740992)"
  proof -
    have "fl ((2942351756548724 / 2947810665187961)) = real_of_int 8990519256121101 / 2 ^ 53"
      by (rule fl_eval_nat) simp_all
    then show ?thesis by simp
  qed
  have s: "fl (sqrt (8990519256121101 / 9007199254740992)) = (8998855390741009 / 9007199254740992)"
  proof -
    have "fl (sqrt (8990519256121101 / 9007199254740992)) = real_of_int 8998855390741009 / 2 ^ 53"
      by (rule fl_eval_sqrt) (simp_all add: power2_eq_square)
    then show ?thesis by simp
  qed
  have z: "fl ((- (8343863999983 / 9007199254740992))) = (- (8343863999983 / 9007199254740992))"
  proof -
    have "fl ((- (8343863999983 / 9007199254740992))) = real_of_int (- 8544116735982592) / 2 ^ 63"
      by (rule fl_eval_nat) simp_all
    then show ?thesis by simp
  qed
  have D: "js_div64 (Num (2206763817411543 / 2251799813685248)) (Num (8843431995563883 / 9007199254740992)) = Num (8990519256121101 / 9007199254740992)"
    unfolding js_div64_def by (simp add: d)
  have S: "js_sqrt64 (Num (8990519256121101 / 9007199254740992)) = Num (8998855390741009 / 9007199254740992)"
    unfolding js_sqrt64_def by (simp only: js_sqrt.simps) (simp add: s)
  have Z: "js_sub64 (Num (8998855390741009 / 9007199254740992)) (Num 1) = Num (- (8343863999983 / 9007199254740992))"
    unfolding js_sub64_def js_sub_def by (simp add: z)
  show ?thesis
    by (simp only: redshift64_def Let_def term64_1_11 term64_1_10 D S Z)
qed

text \<open>
  Mass 1 and observers at radii 10 and 11. In double precision the redshift is
  \<open>4175800273423 / 2 ^ 52\<close> and, with the observers swapped,
  \<open>- 8343863999983 / 2 ^ 53\<close>. The product \<open>(1 + z12) * (1 + z21)\<close> of these two
  numbers is not 1, and evaluated in double precision it is \<open>1 - 1 / 2 ^ 53\<close>, which
  prints as \<^verbatim>\<open>0.9999999999999999\<close>.
\<close>

theorem redshift_inverse_counterexample:
  "redshift64 (Num 1) (Num 10) (Num 11) = Num (4175800273423 / 4503599627370496) \<and>
   redshift64 (Num 1) (Num 11) (Num 10) = Num (- (8343863999983 / 9007199254740992)) \<and>
   js_mul (js_add (Num 1) (redshift64 (Num 1) (Num 10) (Num 11)))
          (js_add (Num 1) (redshift64 (Num 1) (Num 11) (Num 10))) \<noteq> Num 1 \<and>
   js_mul64 (js_add64 (Num 1) (redshift64 (Num 1) (Num 10) (Num 11)))
            (js_add64 (Num 1) (redshift64 (Num 1) (Num 11) (Num 10))) =
     Num (9007199254740991 / 9007199254740992)"
proof -
  have x: "fl (1 + (4175800273423 / 4503599627370496)) = (4507775427643919 / 4503599627370496)"
  proof -
    have "fl (1 + (4175800273423 / 4503599627370496)) = real_of_int 4507775427643919 / 2 ^ 52"
      by (rule fl_eval_nat) simp_all
    then show ?thesis by simp
  qed
  have y: "fl (1 + (- (8343863999983 / 9007199254740992))) = (8998855390741009 / 9007199254740992)"
  proof -
    have "fl (1 + (- (8343863999983 / 9007199254740992))) = real_of_int 8998855390741009 / 2 ^ 53"
      by (rule fl_eval_nat) simp_all
    then show ?thesis by simp
  qed
  have p: "fl ((4507775427643919 / 4503599627370496) * (8998855390741009 / 9007199254740992)) = (9007199254740991 / 9007199254740992)"
  proof -
    have "fl ((4507775427643919 / 4503599627370496) * (8998855390741009 / 9007199254740992)) = real_of_int 9007199254740991 / 2 ^ 53"
      by (rule fl_eval_nat) simp_all
    then show ?thesis by simp
  qed
  have X: "js_add64 (Num 1) (Num (4175800273423 / 4503599627370496)) = Num (4507775427643919 / 4503599627370496)"
    unfolding js_add64_def js_add.simps by (rule rnd64_fl [OF x]) simp
  have Y: "js_add64 (Num 1) (Num (- (8343863999983 / 9007199254740992))) = Num (8998855390741009 / 9007199254740992)"
    unfolding js_add64_def js_add.simps by (rule rnd64_fl [OF y]) simp
  have M: "js_mul64 (Num (4507775427643919 / 4503599627370496)) (Num (8998855390741009 / 9007199254740992)) = Num (9007199254740991 / 9007199254740992)"
    unfolding js_mul64_def js_mul.simps by (rule rnd64_fl [OF p]) simp
  have E: "js_mul (js_add (Num 1) (Num (4175800273423 / 4503599627370496))) (js_add (Num 1) (Num (- (8343863999983 / 9007199254740992)))) \<noteq> Num 1"
    by simp
  show ?thesis
    using E by (simp only: redshift64_1_10_11 redshift64_1_11_10 X Y M simp_thms)
qed

text \<open>
  C3, as amended. For potentials \<open>mass / r1\<close> and \<open>mass / r2\<close> between 0 and 4.9 (the
  largest potential below 5 that the sliders reach), the redshift computed in double
  precision for the two observers and the one computed with the observers swapped are
  finite, and \<open>(1 + z12) * (1 + z21)\<close> is 1 up to rounding: the exact product of the two
  computed redshifts is within \<open>1 / 2 ^ 44\<close> of 1, and the product evaluated in double
  precision is within \<open>1 / 2 ^ 43\<close> of 1.
\<close>

theorem redshift_inverse_rounded:
  fixes m r1 r2 :: real
  assumes "r1 \<noteq> 0" "0 \<le> m / r1" "m / r1 \<le> 49 / 10"
    and "r2 \<noteq> 0" "0 \<le> m / r2" "m / r2 \<le> 49 / 10"
  shows "closeTo (js_mul (js_add (Num 1) (redshift64 (Num m) (Num r1) (Num r2)))
                         (js_add (Num 1) (redshift64 (Num m) (Num r2) (Num r1)))) 1 (1 / 2 ^ 44) \<and>
         closeTo (js_mul64 (js_add64 (Num 1) (redshift64 (Num m) (Num r1) (Num r2)))
                           (js_add64 (Num 1) (redshift64 (Num m) (Num r2) (Num r1)))) 1 (1 / 2 ^ 43)"
proof -
  define a1 where "a1 = fl (1 - fl (fl (2 * fl (m / r1)) * (3602879701896397 / 36028797018963968)))"
  define a2 where "a2 = fl (1 - fl (fl (2 * fl (m / r2)) * (3602879701896397 / 36028797018963968)))"
  define z12 where "z12 = fl (fl (sqrt (fl (a2 / a1))) - 1)"
  define z21 where "z21 = fl (fl (sqrt (fl (a1 / a2))) - 1)"
  define sg where "sg = sqrt (a2 / a1)"
  define sg' where "sg' = sqrt (a1 / a2)"
  define eps :: real where "eps = 1 / 2 ^ 48"
  have e: "0 \<le> eps" "eps \<le> 1 / 100000000000000" by (simp_all add: eps_def)
  note f = redshift64_in_domain [OF assms(1,2,3,4,5,6), folded a1_def a2_def z12_def sg_def eps_def]
  note b = redshift64_in_domain [OF assms(4,5,6,1,2,3), folded a1_def a2_def z21_def sg'_def eps_def]
  have one: "sg * sg' = 1"
    using f(6,7) by (simp add: sg_def sg'_def real_sqrt_mult [symmetric])
  have sa: "\<bar>sg\<bar> \<le> 29 / 4" "\<bar>sg'\<bar> \<le> 29 / 4" using f(4,5) b(4,5) by linarith+
  have "\<bar>(1 + z12) * (1 + z21) - sg * sg'\<bar> \<le> (2 * (29 / 4) + 1) * eps"
    by (rule prod_err [OF f(2) b(2) sa]) (use e in linarith)
  then have exact: "\<bar>(1 + z12) * (1 + z21) - 1\<bar> \<le> 16 * eps"
    using e one by simp
  have "16 * eps = 1 / 2 ^ 44" by (simp add: eps_def)
  with exact have c1: "closeTo (Num ((1 + z12) * (1 + z21))) 1 (1 / 2 ^ 44)" by simp
  define x where "x = fl (1 + z12)"
  define y where "y = fl (1 + z21)"
  have x: "\<bar>x - (1 + z12)\<bar> \<le> eps" unfolding x_def eps_def by (rule fl_small [OF f(3)])
  have y: "\<bar>y - (1 + z21)\<bar> \<le> eps" unfolding y_def eps_def by (rule fl_small [OF b(3)])
  have xs: "\<bar>x - sg\<bar> \<le> 2 * eps" using x f(2) by linarith
  have ys: "\<bar>y - sg'\<bar> \<le> 2 * eps" using y b(2) by linarith
  have "\<bar>x * y - sg * sg'\<bar> \<le> (2 * (29 / 4) + 1) * (2 * eps)"
    by (rule prod_err [OF xs ys sa]) (use e in linarith)
  then have xy: "\<bar>x * y - 1\<bar> \<le> 31 * eps" using one by simp
  have xya: "\<bar>x * y\<bar> \<le> 16" using xy e by linarith
  have "\<bar>fl (x * y) - x * y\<bar> \<le> eps" unfolding eps_def by (rule fl_small [OF xya])
  then have "\<bar>fl (x * y) - 1\<bar> \<le> 32 * eps" using xy by linarith
  moreover have "32 * eps = 1 / 2 ^ 43" by (simp add: eps_def)
  ultimately have c2: "closeTo (Num (fl (x * y))) 1 (1 / 2 ^ 43)" by simp
  have X: "js_add64 (Num 1) (Num z12) = Num x"
    using rnd64_Num [OF f(3)] by (simp add: js_add64_def x_def)
  have Y: "js_add64 (Num 1) (Num z21) = Num y"
    using rnd64_Num [OF b(3)] by (simp add: js_add64_def y_def)
  have P: "js_mul64 (Num x) (Num y) = Num (fl (x * y))"
    using rnd64_Num [OF xya] by (simp add: js_mul64_def)
  show ?thesis
    using c1 c2 by (simp only: f(1) b(1) X Y P js_add.simps js_mul.simps simp_thms)
qed

theorem redshift_inverse_rounded_witness:
  "(30::real) \<noteq> 0 \<and> (0::real) \<le> 10 / 30 \<and> (10::real) / 30 \<le> 49 / 10 \<and>
   (20::real) \<noteq> 0 \<and> (0::real) \<le> 10 / 20 \<and> (10::real) / 20 \<le> 49 / 10 \<and>
   closeTo (js_mul (js_add (Num 1) (redshift64 (Num 10) (Num 30) (Num 20)))
                   (js_add (Num 1) (redshift64 (Num 10) (Num 20) (Num 30)))) 1 (1 / 2 ^ 44) \<and>
   closeTo (js_mul64 (js_add64 (Num 1) (redshift64 (Num 10) (Num 30) (Num 20)))
                     (js_add64 (Num 1) (redshift64 (Num 10) (Num 20) (Num 30)))) 1 (1 / 2 ^ 43)"
  using redshift_inverse_rounded [where m = 10 and ?r1.0 = 30 and ?r2.0 = 20] by simp

end
